theory Spec2Isabelle
  imports Complex_Main "HOL-Library.Char_ord" "HOL-Library.List_Lexorder"
begin

section \<open>Values, errors and the object store\<close>

text \<open>
  The module \<^verbatim>\<open>project/set_of_sites.py\<close> works on numpy arrays that it allocates and
  writes by subscript, on Python lists of \<^verbatim>\<open>Site\<close> objects, and on the records that
  \<^verbatim>\<open>load_site_data\<close> returns. Exceptions are values of type \<open>error\<close>; a computation that
  may raise returns \<open>error + 'a\<close>, with \<open>Inl\<close> for the exception. The module defines no
  exception class of its own; a \<open>ValueError\<close> carries the operation that raised it, the
  builtin \<^verbatim>\<open>min\<close> or numpy's subscript assignment. Floating-point numbers are
  modelled as reals, so rounding, infinities and NaN are outside the model; in particular
  the division by a cell volume is the division of the reals.
\<close>

datatype raised_by = Builtin_min | Array_setitem

datatype error = TypeError | IndexError | ValueError raised_by

definition and_then :: "error + 'a \<Rightarrow> ('a \<Rightarrow> error + 'b) \<Rightarrow> error + 'b" where
  "and_then m f = (case m of Inl e \<Rightarrow> Inl e | Inr v \<Rightarrow> f v)"

text \<open>
  A numpy array is zero-dimensional (one entry, no axis to subscript) or one-dimensional.
\<close>

datatype ndarray = Arr0 real | Arr1 "real list"

text \<open>
  Modelled from the spec: the class \<^verbatim>\<open>Site\<close> is defined in \<^verbatim>\<open>project.site\<close>, which is not
  part of the sources at hand. The spec gives a site a label, a position \<^verbatim>\<open>x\<close> and its
  \<^verbatim>\<open>defect_energies\<close>; the method \<^verbatim>\<open>probabilities\<close> is a parameter of every function
  that calls it.
\<close>

record Site =
  site_label :: string
  site_x :: real
  site_defect_energies :: "real list"

text \<open>
  The store holds the objects that are shared by reference: arrays and lists of sites.
  An address is a position in the store; allocation appends.
\<close>

type_synonym addr = nat

datatype obj = NdArray ndarray | SiteList "Site list"

type_synonym heap = "obj list"

definition alloc :: "obj \<Rightarrow> heap \<Rightarrow> addr \<times> heap" where
  "alloc v h = (length h, h @ [v])"

text \<open>
  A reference always denotes an object of the expected kind in Python. The model gives a
  reference that does not \<open>TypeError\<close>, so that every function is total.
\<close>

definition read_array :: "heap \<Rightarrow> addr \<Rightarrow> error + ndarray" where
  "read_array h a =
     (if a < length h then (case h ! a of NdArray arr \<Rightarrow> Inr arr | SiteList _ \<Rightarrow> Inl TypeError)
      else Inl TypeError)"

definition read_sites :: "heap \<Rightarrow> addr \<Rightarrow> error + Site list" where
  "read_sites h a =
     (if a < length h then (case h ! a of SiteList ss \<Rightarrow> Inr ss | NdArray _ \<Rightarrow> Inl TypeError)
      else Inl TypeError)"

text \<open>
  Modelled from the spec: the class \<^verbatim>\<open>Grid\<close> is defined in \<^verbatim>\<open>project.grid\<close>, which is not
  part of the sources at hand. The spec gives a grid the attributes \<^verbatim>\<open>x\<close> and
  \<^verbatim>\<open>volumes\<close>, two arrays, and nothing else: a grid is neither a sequence nor array-like.
\<close>

record Grid =
  grid_x :: addr
  grid_volumes :: addr

record Set_of_Sites =
  sites :: addr

section \<open>Arrays\<close>

text \<open>\<^verbatim>\<open>np.zeros_like(a)\<close>: a new array of the shape of \<open>a\<close>, every entry zero.\<close>

definition np_zeros_like :: "ndarray \<Rightarrow> ndarray" where
  "np_zeros_like a = (case a of Arr0 _ \<Rightarrow> Arr0 0 | Arr1 xs \<Rightarrow> Arr1 (replicate (length xs) 0))"

text \<open>
  An integer subscript on an axis of length \<open>n\<close>: \<open>0 \<dots> n - 1\<close> count from the front,
  \<open>- n \<dots> - 1\<close> from the end, anything else raises \<^verbatim>\<open>IndexError\<close>.
\<close>

definition axis_index :: "nat \<Rightarrow> int \<Rightarrow> error + nat" where
  "axis_index n i =
     (if 0 \<le> i \<and> i < int n then Inr (nat i)
      else if - int n \<le> i \<and> i < 0 then Inr (nat (int n + i))
      else Inl IndexError)"

text \<open>
  \<^verbatim>\<open>a[i]\<close> read and written with one integer subscript. A zero-dimensional array has no
  axis, so any subscript raises \<^verbatim>\<open>IndexError\<close>.
\<close>

definition getitem :: "ndarray \<Rightarrow> int \<Rightarrow> error + real" where
  "getitem a i =
     (case a of Arr0 _ \<Rightarrow> Inl IndexError
      | Arr1 xs \<Rightarrow> and_then (axis_index (length xs) i) (\<lambda>k. Inr (xs ! k)))"

definition setitem :: "ndarray \<Rightarrow> int \<Rightarrow> real \<Rightarrow> error + ndarray" where
  "setitem a i v =
     (case a of Arr0 _ \<Rightarrow> Inl IndexError
      | Arr1 xs \<Rightarrow> and_then (axis_index (length xs) i) (\<lambda>k. Inr (Arr1 (xs[k := v]))))"

text \<open>
  \<^verbatim>\<open>a[i] = v\<close> where \<open>v\<close> is itself a one-dimensional array: the subscript is resolved
  first; then \<open>v\<close> has to hold exactly one entry, which is stored, or numpy raises
  \<^verbatim>\<open>ValueError\<close> (setting an array element with a sequence).
\<close>

definition setitem_array :: "ndarray \<Rightarrow> int \<Rightarrow> real list \<Rightarrow> error + ndarray" where
  "setitem_array a i v =
     (case a of Arr0 _ \<Rightarrow> Inl IndexError
      | Arr1 xs \<Rightarrow>
          and_then (axis_index (length xs) i) (\<lambda>k.
            (case v of [p] \<Rightarrow> Inr (Arr1 (xs[k := p])) | _ \<Rightarrow> Inl (ValueError Array_setitem))))"

text \<open>
  The array bound to a local name is updated in place: \<open>update_array a f\<close> reads the array
  at address \<open>a\<close>, applies the statement \<open>f\<close> to it and stores the result at \<open>a\<close>.
\<close>

definition update_array :: "addr \<Rightarrow> (ndarray \<Rightarrow> error + ndarray) \<Rightarrow> heap \<Rightarrow> error + heap" where
  "update_array a f h =
     and_then (read_array h a) (\<lambda>arr. and_then (f arr) (\<lambda>arr'. Inr (h[a := NdArray arr'])))"

text \<open>
  \<^verbatim>\<open>for v in vs: body\<close> over a state: the body runs on each item in turn and the first
  exception ends the loop, leaving the state as the earlier iterations made it.
\<close>

fun for_each :: "('a \<Rightarrow> 's \<Rightarrow> error + 's) \<Rightarrow> 'a list \<Rightarrow> 's \<Rightarrow> (error + unit) \<times> 's" where
  "for_each body [] st = (Inr (), st)"
| "for_each body (v # vs) st =
     (case body v st of Inl e \<Rightarrow> (Inl e, st) | Inr st' \<Rightarrow> for_each body vs st')"

section \<open>Aggregation onto a grid\<close>

text \<open>
  The grid-alignment functions \<^verbatim>\<open>index_of_grid_at_x\<close>, \<^verbatim>\<open>phi_at_x\<close> and \<^verbatim>\<open>energy_at_x\<close>
  come from \<^verbatim>\<open>project.grid\<close> and the method \<^verbatim>\<open>probabilities\<close> from \<^verbatim>\<open>project.site\<close>;
  none of them is part of the sources at hand, so each is a parameter. They read their
  arguments and may raise.
\<close>

type_synonym index_fn = "ndarray \<Rightarrow> real \<Rightarrow> error + int"
type_synonym phi_fn = "ndarray \<Rightarrow> ndarray \<Rightarrow> real \<Rightarrow> error + real"
type_synonym energy_fn = "real list \<Rightarrow> ndarray \<Rightarrow> real \<Rightarrow> error + real"
type_synonym probabilities_fn = "Site \<Rightarrow> real \<Rightarrow> real \<Rightarrow> error + real list"

text \<open>
  The body of the loop of \<^verbatim>\<open>calculate_energies_on_grid\<close>:
  \<^verbatim>\<open>energies_on_grid[index_of_grid_at_x(grid.x, site.x)] =+ energy_at_x(site.defect_energies, grid.x, site.x)\<close>.
  The statement is an assignment whose right-hand side is \<^verbatim>\<open>+ energy_at_x(...)\<close>, the
  unary plus of the energy. The right-hand side is evaluated before the subscript.
\<close>

definition unary_plus :: "real \<Rightarrow> real" where
  "unary_plus v = v"

definition assign_energy :: "index_fn \<Rightarrow> energy_fn \<Rightarrow> ndarray \<Rightarrow> Site \<Rightarrow> ndarray \<Rightarrow> error + ndarray" where
  "assign_energy index_of_grid_at_x energy_at_x gx site energies_on_grid =
     and_then (energy_at_x (site_defect_energies site) gx (site_x site)) (\<lambda>e.
     and_then (index_of_grid_at_x gx (site_x site)) (\<lambda>i.
     setitem energies_on_grid i (unary_plus e)))"

text \<open>
  \<^verbatim>\<open>calculate_energies_on_grid\<close>. The array is \<^verbatim>\<open>np.zeros_like(grid)\<close>, of the grid object
  and not of \<^verbatim>\<open>grid.x\<close>: numpy turns an object that is neither a sequence nor array-like
  into a zero-dimensional array, so the result is a zero-dimensional array holding 0.
\<close>

definition calculate_energies_on_grid ::
  "index_fn \<Rightarrow> energy_fn \<Rightarrow> Set_of_Sites \<Rightarrow> Grid \<Rightarrow> addr \<Rightarrow> heap \<Rightarrow> (error + addr) \<times> heap" where
  "calculate_energies_on_grid index_of_grid_at_x energy_at_x self grid phi h =
     (case alloc (NdArray (Arr0 0)) h of (energies_on_grid, h1) \<Rightarrow>
        (case read_sites h1 (sites self) of
           Inl e \<Rightarrow> (Inl e, h1)
         | Inr ss \<Rightarrow>
             (case for_each (\<lambda>site h'.
                      and_then (read_array h' (grid_x grid)) (\<lambda>gx.
                      update_array energies_on_grid
                        (assign_energy index_of_grid_at_x energy_at_x gx site) h')) ss h1 of
                (Inl e, h2) \<Rightarrow> (Inl e, h2)
              | (Inr u, h2) \<Rightarrow> (Inr energies_on_grid, h2))))"

text \<open>
  The body of the loop of \<^verbatim>\<open>calculate_probabilities\<close>:
  \<^verbatim>\<open>probability[index_of_grid_at_x(grid.x, site.x)] = np.asarray(site.probabilities(phi_at_x(phi, grid.x, site.x), temp))\<close>.
\<close>

definition assign_probability ::
  "index_fn \<Rightarrow> phi_fn \<Rightarrow> probabilities_fn \<Rightarrow> ndarray \<Rightarrow> ndarray \<Rightarrow> real \<Rightarrow> Site \<Rightarrow>
   ndarray \<Rightarrow> error + ndarray" where
  "assign_probability index_of_grid_at_x phi_at_x probabilities phi gx temp site probability =
     and_then (phi_at_x phi gx (site_x site)) (\<lambda>v.
     and_then (probabilities site v temp) (\<lambda>ps.
     and_then (index_of_grid_at_x gx (site_x site)) (\<lambda>i.
     setitem_array probability i ps)))"

definition calculate_probabilities ::
  "index_fn \<Rightarrow> phi_fn \<Rightarrow> probabilities_fn \<Rightarrow> Set_of_Sites \<Rightarrow> Grid \<Rightarrow> addr \<Rightarrow> real \<Rightarrow> heap \<Rightarrow>
   (error + addr) \<times> heap" where
  "calculate_probabilities index_of_grid_at_x phi_at_x probabilities self grid phi temp h =
     (case read_array h (grid_x grid) of
        Inl e \<Rightarrow> (Inl e, h)
      | Inr gx0 \<Rightarrow>
          (case alloc (NdArray (np_zeros_like gx0)) h of (probability, h1) \<Rightarrow>
             (case read_sites h1 (sites self) of
                Inl e \<Rightarrow> (Inl e, h1)
              | Inr ss \<Rightarrow>
                  (case for_each (\<lambda>site h'.
                           and_then (read_array h' phi) (\<lambda>phi_array.
                           and_then (read_array h' (grid_x grid)) (\<lambda>gx.
                           update_array probability
                             (assign_probability index_of_grid_at_x phi_at_x probabilities
                                phi_array gx temp site) h'))) ss h1 of
                     (Inl e, h2) \<Rightarrow> (Inl e, h2)
                   | (Inr u, h2) \<Rightarrow> (Inr probability, h2)))))"

text \<open>
  The body of the loops of \<^verbatim>\<open>calculate_defect_density\<close> and
  \<^verbatim>\<open>subgrid_calculate_defect_density\<close>:
  \<^verbatim>\<open>i = index_of_grid_at_x(gx.x, site.x)\<close>, then
  \<^verbatim>\<open>defect_density[i] += np.asarray(site.probabilities(phi_at_x(phi, fx.x, site.x), temp)) / volumes[i]\<close>,
  where \<open>gx\<close> is the grid of the index and the volumes, and \<open>fx\<close> the grid of the
  potential. The augmented assignment reads \<^verbatim>\<open>defect_density[i]\<close>, evaluates the
  right-hand side, adds, and stores the sum at the same subscript; the division and the
  sum are elementwise over the probabilities.
\<close>

definition add_density ::
  "index_fn \<Rightarrow> phi_fn \<Rightarrow> probabilities_fn \<Rightarrow> ndarray \<Rightarrow> ndarray \<Rightarrow> ndarray \<Rightarrow> ndarray \<Rightarrow> real \<Rightarrow>
   Site \<Rightarrow> ndarray \<Rightarrow> error + ndarray" where
  "add_density index_of_grid_at_x phi_at_x probabilities phi gx fx volumes temp site
       defect_density =
     and_then (index_of_grid_at_x gx (site_x site)) (\<lambda>i.
     and_then (getitem defect_density i) (\<lambda>old.
     and_then (phi_at_x phi fx (site_x site)) (\<lambda>v.
     and_then (probabilities site v temp) (\<lambda>ps.
     and_then (getitem volumes i) (\<lambda>vol.
     setitem_array defect_density i (map (\<lambda>p. old + p / vol) ps))))))"

definition calculate_defect_density ::
  "index_fn \<Rightarrow> phi_fn \<Rightarrow> probabilities_fn \<Rightarrow> Set_of_Sites \<Rightarrow> Grid \<Rightarrow> addr \<Rightarrow> real \<Rightarrow> heap \<Rightarrow>
   (error + addr) \<times> heap" where
  "calculate_defect_density index_of_grid_at_x phi_at_x probabilities self grid phi temp h =
     (case read_array h (grid_x grid) of
        Inl e \<Rightarrow> (Inl e, h)
      | Inr gx0 \<Rightarrow>
          (case alloc (NdArray (np_zeros_like gx0)) h of (defect_density, h1) \<Rightarrow>
             (case read_sites h1 (sites self) of
                Inl e \<Rightarrow> (Inl e, h1)
              | Inr ss \<Rightarrow>
                  (case for_each (\<lambda>site h'.
                           and_then (read_array h' (grid_x grid)) (\<lambda>gx.
                           and_then (read_array h' phi) (\<lambda>phi_array.
                           and_then (read_array h' (grid_volumes grid)) (\<lambda>volumes.
                           update_array defect_density
                             (add_density index_of_grid_at_x phi_at_x probabilities
                                phi_array gx gx volumes temp site) h')))) ss h1 of
                     (Inl e, h2) \<Rightarrow> (Inl e, h2)
                   | (Inr u, h2) \<Rightarrow> (Inr defect_density, h2)))))"

definition subgrid_calculate_defect_density ::
  "index_fn \<Rightarrow> phi_fn \<Rightarrow> probabilities_fn \<Rightarrow> Set_of_Sites \<Rightarrow> Grid \<Rightarrow> Grid \<Rightarrow> addr \<Rightarrow> real \<Rightarrow>
   heap \<Rightarrow> (error + addr) \<times> heap" where
  "subgrid_calculate_defect_density index_of_grid_at_x phi_at_x probabilities self
       sub_grid full_grid phi temp h =
     (case read_array h (grid_x sub_grid) of
        Inl e \<Rightarrow> (Inl e, h)
      | Inr gx0 \<Rightarrow>
          (case alloc (NdArray (np_zeros_like gx0)) h of (defect_density, h1) \<Rightarrow>
             (case read_sites h1 (sites self) of
                Inl e \<Rightarrow> (Inl e, h1)
              | Inr ss \<Rightarrow>
                  (case for_each (\<lambda>site h'.
                           and_then (read_array h' (grid_x sub_grid)) (\<lambda>gx.
                           and_then (read_array h' phi) (\<lambda>phi_array.
                           and_then (read_array h' (grid_x full_grid)) (\<lambda>fx.
                           and_then (read_array h' (grid_volumes sub_grid)) (\<lambda>volumes.
                           update_array defect_density
                             (add_density index_of_grid_at_x phi_at_x probabilities
                                phi_array gx fx volumes temp site) h'))))) ss h1 of
                     (Inl e, h2) \<Rightarrow> (Inl e, h2)
                   | (Inr u, h2) \<Rightarrow> (Inr defect_density, h2)))))"

text \<open>
  Modelled from the spec: \<^verbatim>\<open>index_of_grid_at_x\<close> is defined in \<^verbatim>\<open>project.grid\<close>, which is
  not part of the sources at hand. The spec has it find the insertion point of the
  position in the ascending coordinates, choose the nearer of the two neighbours with
  ties to the lower index, and clamp to the first or last index outside the grid. The
  theorems below hold for every index function; this one serves in their examples.
\<close>

definition nearest_gridpoint :: "real list \<Rightarrow> real \<Rightarrow> int" where
  "nearest_gridpoint xs v =
     (let pos = length (takeWhile (\<lambda>y. y < v) xs) in
      if pos = 0 then 0
      else if pos = length xs then int (length xs) - 1
      else if xs ! pos - v < v - xs ! (pos - 1) then int pos
      else int pos - 1)"

section \<open>Concatenation\<close>

text \<open>
  The right operand of \<^verbatim>\<open>+\<close> is any Python value. What \<^verbatim>\<open>__add__\<close> looks at is its
  class: \<^verbatim>\<open>Set_of_Sites\<close> itself, a proper subclass of it, a plain list, or anything else.
\<close>

datatype py_value =
    Set_of_Sites_object Set_of_Sites
  | Subclass_object Set_of_Sites
  | List_object addr
  | Other_object

definition type_is_Set_of_Sites :: "py_value \<Rightarrow> bool" where
  "type_is_Set_of_Sites v = (case v of Set_of_Sites_object _ \<Rightarrow> True | _ \<Rightarrow> False)"

definition isinstance_Set_of_Sites :: "py_value \<Rightarrow> bool" where
  "isinstance_Set_of_Sites v =
     (case v of Set_of_Sites_object _ \<Rightarrow> True | Subclass_object _ \<Rightarrow> True | _ \<Rightarrow> False)"

text \<open>
  \<^verbatim>\<open>__add__\<close>: raise \<^verbatim>\<open>TypeError\<close> unless \<^verbatim>\<open>type(other) is Set_of_Sites\<close>; otherwise build
  a new list \<^verbatim>\<open>self.sites + other.sites\<close> and a new \<^verbatim>\<open>Set_of_Sites\<close> around it.
\<close>

definition add :: "Set_of_Sites \<Rightarrow> py_value \<Rightarrow> heap \<Rightarrow> (error + Set_of_Sites) \<times> heap" where
  "add self other h =
     (case other of
        Set_of_Sites_object other_set \<Rightarrow>
          (case and_then (read_sites h (sites self)) (\<lambda>xs.
                and_then (read_sites h (sites other_set)) (\<lambda>ys. Inr (xs @ ys))) of
             Inl e \<Rightarrow> (Inl e, h)
           | Inr zs \<Rightarrow> (case alloc (SiteList zs) h of (a, h') \<Rightarrow> (Inr \<lparr>sites = a\<rparr>, h')))
      | _ \<Rightarrow> (Inl TypeError, h))"

section \<open>Construction from input data\<close>

text \<open>
  Modelled from the spec: \<^verbatim>\<open>load_site_data\<close> is defined in \<^verbatim>\<open>project.set_up_calculation\<close>,
  which is not part of the sources at hand. The spec gives its records a positional
  schema, with the energy at index 4. A record is a Python list of fields, each a string
  or a number.
\<close>

datatype field = Text string | Number real

type_synonym line = "field list"

text \<open>Python's \<^verbatim>\<open><\<close> on two fields: numbers and strings compare among themselves only.\<close>

fun py_less :: "field \<Rightarrow> field \<Rightarrow> error + bool" where
  "py_less (Number a) (Number b) = Inr (a < b)"
| "py_less (Text s) (Text t) = Inr (s < t)"
| "py_less _ _ = Inl TypeError"

text \<open>A comparison of a float with a field, \<^verbatim>\<open>a <= v\<close> and \<^verbatim>\<open>v <= b\<close>.\<close>

fun float_le_field :: "real \<Rightarrow> field \<Rightarrow> error + bool" where
  "float_le_field a (Number v) = Inr (a \<le> v)"
| "float_le_field a (Text s) = Inl TypeError"

fun field_le_float :: "field \<Rightarrow> real \<Rightarrow> error + bool" where
  "field_le_float (Number v) b = Inr (v \<le> b)"
| "field_le_float (Text s) b = Inl TypeError"

text \<open>The subscript \<^verbatim>\<open>xs[i]\<close> of a Python list at a constant index \<open>i \<ge> 0\<close>.\<close>

definition item :: "'a list \<Rightarrow> nat \<Rightarrow> error + 'a" where
  "item xs i = (if i < length xs then Inr (xs ! i) else Inl IndexError)"

text \<open>The list comprehension \<^verbatim>\<open>[f(v) for v in xs]\<close>: the first exception ends it.\<close>

fun comprehension :: "('a \<Rightarrow> error + 'b) \<Rightarrow> 'a list \<Rightarrow> error + 'b list" where
  "comprehension f [] = Inr []"
| "comprehension f (v # vs) =
     and_then (f v) (\<lambda>w. and_then (comprehension f vs) (\<lambda>ws. Inr (w # ws)))"

text \<open>
  The builtin \<^verbatim>\<open>min\<close> of a list: \<^verbatim>\<open>ValueError\<close> on the empty list; otherwise it keeps
  the first item and replaces it by each later item that is \<^verbatim>\<open><\<close> the one kept.
\<close>

fun min_from :: "field \<Rightarrow> field list \<Rightarrow> error + field" where
  "min_from m [] = Inr m"
| "min_from m (v # vs) = and_then (py_less v m) (\<lambda>b. min_from (if b then v else m) vs)"

fun py_min :: "field list \<Rightarrow> error + field" where
  "py_min [] = Inl (ValueError Builtin_min)"
| "py_min (v # vs) = min_from v vs"

text \<open>
  The loop of \<^verbatim>\<open>core == 'single'\<close>:
  \<^verbatim>\<open>for line in site_data: if line[4] > min_energy: line[4] = 0.0\<close>,
  where \<^verbatim>\<open>line[4] > min_energy\<close> is \<^verbatim>\<open>min_energy < line[4]\<close>.
\<close>

fun flatten_single :: "field \<Rightarrow> line list \<Rightarrow> error + line list" where
  "flatten_single min_energy [] = Inr []"
| "flatten_single min_energy (l # ls) =
     and_then (item l 4) (\<lambda>e.
     and_then (py_less min_energy e) (\<lambda>b.
     and_then (flatten_single min_energy ls) (\<lambda>ls'.
       Inr ((if b then l[4 := Number 0] else l) # ls'))))"

text \<open>
  The loop of \<^verbatim>\<open>core == 'multi_site'\<close>:
  \<^verbatim>\<open>for line in site_data: if (-boltzmann_eV * temperature) <= line[4] <= (boltzmann_eV * temperature): line[4] = 0.0\<close>.
  The chained comparison reads \<^verbatim>\<open>line[4]\<close> once and stops at the first false link.
\<close>

fun flatten_multi_site :: "real \<Rightarrow> real \<Rightarrow> line list \<Rightarrow> error + line list" where
  "flatten_multi_site boltzmann_eV temperature [] = Inr []"
| "flatten_multi_site boltzmann_eV temperature (l # ls) =
     and_then (item l 4) (\<lambda>e.
     and_then (float_le_field (- boltzmann_eV * temperature) e) (\<lambda>b1.
     and_then (if b1 then field_le_float e (boltzmann_eV * temperature) else Inr False) (\<lambda>b.
     and_then (flatten_multi_site boltzmann_eV temperature ls) (\<lambda>ls'.
       Inr ((if b then l[4 := Number 0] else l) # ls')))))"

text \<open>
  \<^verbatim>\<open>set_of_sites_from_input_data\<close>. Its collaborators \<^verbatim>\<open>load_site_data\<close>,
  \<^verbatim>\<open>site_from_input_file\<close> and the constant \<^verbatim>\<open>boltzmann_eV\<close> are parameters. The two loops
  run one after the other, each under its own test of \<^verbatim>\<open>core\<close>; \<^verbatim>\<open>min\<close> is taken
  before either test.

  In the file the definition stands, under its \<^verbatim>\<open>@classmethod\<close> decorator, below the
  \<^verbatim>\<open>return\<close> of the module-level function \<^verbatim>\<open>form_continuum_sites_new\<close>, whose \<^verbatim>\<open>for\<close>
  statement on line 153 lacks a parenthesis. It is modelled as its body reads and as the
  class method that its decorator and its first parameter \<^verbatim>\<open>cls\<close> declare. The continuum
  and analysis helpers are not modelled.
\<close>

definition set_of_sites_from_input_data ::
  "('i \<Rightarrow> real \<Rightarrow> real \<Rightarrow> 'c \<Rightarrow> real \<Rightarrow> error + line list) \<Rightarrow>
   (line \<Rightarrow> 'd \<Rightarrow> 'c \<Rightarrow> string \<Rightarrow> real \<Rightarrow> error + Site) \<Rightarrow> real \<Rightarrow>
   'i \<Rightarrow> real list \<Rightarrow> 'd \<Rightarrow> 'c \<Rightarrow> string \<Rightarrow> real \<Rightarrow> real \<Rightarrow> heap \<Rightarrow>
   (error + Set_of_Sites) \<times> heap" where
  "set_of_sites_from_input_data load_site_data site_from_input_file boltzmann_eV
       input_data limits defect_species site_charge core temperature offset h =
     (case
        and_then (item limits 0) (\<lambda>lo.
        and_then (item limits 1) (\<lambda>hi.
        and_then (load_site_data input_data lo hi site_charge offset) (\<lambda>site_data.
        and_then (comprehension (\<lambda>l. item l 4) site_data) (\<lambda>energies.
        and_then (py_min energies) (\<lambda>min_energy.
        and_then (if core = ''single'' then flatten_single min_energy site_data
                  else Inr site_data) (\<lambda>site_data1.
        and_then (if core = ''multi_site''
                  then flatten_multi_site boltzmann_eV temperature site_data1
                  else Inr site_data1) (\<lambda>site_data2.
        comprehension (\<lambda>l. site_from_input_file l defect_species site_charge core temperature)
          site_data2)))))))
      of Inl e \<Rightarrow> (Inl e, h)
       | Inr new_sites \<Rightarrow>
           (case alloc (SiteList new_sites) h of (a, h') \<Rightarrow> (Inr \<lparr>sites = a\<rparr>, h')))"

section \<open>Facts\<close>

lemma and_then_simps [simp]:
  "and_then (Inl e) f = Inl e"
  "and_then (Inr v) f = f v"
  by (simp_all add: and_then_def)


subsection \<open>Records and their energies\<close>

lemma min_from_numbers:
  "min_from (Number m) (map Number es) = Inr (Number (fold min es m))"
proof (induction es arbitrary: m)
  case Nil
  show ?case by simp
next
  case (Cons e es)
  have "(if e < m then e else m) = min e m" by (simp add: min_def)
  then show ?case using Cons.IH [of "min e m"]
    by (simp add: if_distrib [of Number, symmetric])
qed

lemma py_min_numbers:
  "es \<noteq> [] \<Longrightarrow> py_min (map Number es) = Inr (Number (Min (set es)))"
proof (cases es)
  case Nil
  assume "es \<noteq> []"
  with Nil show ?thesis by simp
next
  case (Cons e es')
  show ?thesis unfolding Cons
    by (simp only: list.map py_min.simps min_from_numbers Min.set_eq_fold)
qed

lemma flatten_single_numbers:
  "\<forall>l\<in>set ls. 4 < length l \<and> l ! 4 = Number (energy l) \<Longrightarrow>
   flatten_single (Number m) ls =
     Inr (map (\<lambda>l. if m < energy l then l[4 := Number 0] else l) ls)"
  by (induction ls) (simp_all add: item_def)

lemma flatten_multi_site_numbers:
  "\<forall>l\<in>set ls. 4 < length l \<and> l ! 4 = Number (energy l) \<Longrightarrow>
   flatten_multi_site k t ls =
     Inr (map (\<lambda>l. if - k * t \<le> energy l \<and> energy l \<le> k * t then l[4 := Number 0] else l) ls)"
  by (induction ls) (simp_all add: item_def)

lemma item_limits:
  assumes "1 < length limits"
  shows "item limits 0 = Inr (limits ! 0)" and "item limits (Suc 0) = Inr (limits ! Suc 0)"
  using assms by (cases limits; simp add: item_def)+

lemma energies_of_records:
  "\<forall>l\<in>set ls. 4 < length l \<and> l ! 4 = Number (energy l) \<Longrightarrow>
   comprehension (\<lambda>l. item l 4) ls = Inr (map (Number \<circ> energy) ls)"
  by (induction ls) (simp_all add: item_def)

lemma min_of_records:
  "ls \<noteq> [] \<Longrightarrow> py_min (map (Number \<circ> energy) ls) = Inr (Number (Min (energy ` set ls)))"
  using py_min_numbers [of "map energy ls"] by simp

subsection \<open>The flattening policies\<close>

text \<open>
  Claim C7. With \<^verbatim>\<open>core == 'single'\<close>, \<^verbatim>\<open>set_of_sites_from_input_data\<close> sets to zero the
  energy of exactly the records whose energy is strictly above the minimum over all
  loaded records, and leaves every other record, those tied at the minimum among them, as
  it was loaded. The records are those that \<^verbatim>\<open>load_site_data\<close> returns for the two
  limits: at least one, each with a number \<open>energy l\<close> at index 4. The sites are built
  from the flattened records, in order, and stored as a new list.
\<close>

theorem single_zeroes_above_minimum:
  assumes "1 < length limits"
    and "load_site_data input_data (limits ! 0) (limits ! 1) site_charge offset = Inr site_data"
    and "site_data \<noteq> []"
    and "\<forall>l\<in>set site_data. 4 < length l \<and> l ! 4 = Number (energy l)"
  shows "set_of_sites_from_input_data load_site_data site_from_input_file boltzmann_eV
           input_data limits defect_species site_charge ''single'' temperature offset h =
         (case comprehension
                 (\<lambda>l. site_from_input_file l defect_species site_charge ''single'' temperature)
                 (map (\<lambda>l. if Min (energy ` set site_data) < energy l
                            then l[4 := Number 0] else l) site_data) of
            Inl e \<Rightarrow> (Inl e, h)
          | Inr new_sites \<Rightarrow> (Inr \<lparr>sites = length h\<rparr>, h @ [SiteList new_sites]))"
  using assms(2)
  by (simp add: set_of_sites_from_input_data_def item_limits [OF assms(1)]
      energies_of_records [OF assms(4)] min_of_records [OF assms(3)]
      flatten_single_numbers [OF assms(4)] alloc_def split: sum.split)

text \<open>
  The scenario of the claim: three records with the energies \<open>-0.2\<close>, \<open>-0.2\<close> and \<open>0.1\<close>
  give sites with the energies \<open>-0.2\<close>, \<open>-0.2\<close> and \<open>0\<close>.
\<close>

theorem single_zeroes_above_minimum_witness:
  "set_of_sites_from_input_data
     (\<lambda>i lo hi c off. Inr [[Text ''A'', Number 1, Number 0.5, Number 0, Number (- 0.2)],
                           [Text ''A'', Number 2, Number 1.5, Number 0, Number (- 0.2)],
                           [Text ''A'', Number 3, Number 2.5, Number 0, Number 0.1]])
     (\<lambda>l d c core t. case l ! 4 of
         Number e \<Rightarrow> Inr \<lparr>site_label = ''A'', site_x = 0, site_defect_energies = [e]\<rparr>
       | Text s \<Rightarrow> Inl TypeError)
     (1 / 12000) () [0, 10] () () ''single'' 300 0 []
   = (Inr \<lparr>sites = 0\<rparr>,
      [SiteList [\<lparr>site_label = ''A'', site_x = 0, site_defect_energies = [- 0.2]\<rparr>,
                 \<lparr>site_label = ''A'', site_x = 0, site_defect_energies = [- 0.2]\<rparr>,
                 \<lparr>site_label = ''A'', site_x = 0, site_defect_energies = [0]\<rparr>]])"
  using single_zeroes_above_minimum [of "[0, 10]"
     "\<lambda>i lo hi c off. Inr [[Text ''A'', Number 1, Number 0.5, Number 0, Number (- 0.2)],
                           [Text ''A'', Number 2, Number 1.5, Number 0, Number (- 0.2)],
                           [Text ''A'', Number 3, Number 2.5, Number 0, Number 0.1]]"
     "()" "()" 0 _ "\<lambda>l. case l ! 4 of Number e \<Rightarrow> e | Text s \<Rightarrow> 0"
     "\<lambda>l d c core t. case l ! 4 of
         Number e \<Rightarrow> Inr \<lparr>site_label = ''A'', site_x = 0, site_defect_energies = [e]\<rparr>
       | Text s \<Rightarrow> Inl TypeError" "1 / 12000" "()" 300 "[]"]
  by simp

text \<open>
  Claim C8. With \<^verbatim>\<open>core == 'multi_site'\<close>, \<^verbatim>\<open>set_of_sites_from_input_data\<close> sets to zero
  the energy of exactly the records whose energy lies in the closed interval from
  \<open>- boltzmann_eV * temperature\<close> to \<open>boltzmann_eV * temperature\<close>, and leaves every
  other record as it was loaded. The records are as in the claim before: at least one,
  each with a number at index 4.
\<close>

theorem multi_site_zeroes_within_kT:
  assumes "1 < length limits"
    and "load_site_data input_data (limits ! 0) (limits ! 1) site_charge offset = Inr site_data"
    and "site_data \<noteq> []"
    and "\<forall>l\<in>set site_data. 4 < length l \<and> l ! 4 = Number (energy l)"
  shows "set_of_sites_from_input_data load_site_data site_from_input_file boltzmann_eV
           input_data limits defect_species site_charge ''multi_site'' temperature offset h =
         (case comprehension
                 (\<lambda>l. site_from_input_file l defect_species site_charge ''multi_site'' temperature)
                 (map (\<lambda>l. if - boltzmann_eV * temperature \<le> energy l \<and>
                               energy l \<le> boltzmann_eV * temperature
                            then l[4 := Number 0] else l) site_data) of
            Inl e \<Rightarrow> (Inl e, h)
          | Inr new_sites \<Rightarrow> (Inr \<lparr>sites = length h\<rparr>, h @ [SiteList new_sites]))"
  using assms(2)
  by (simp add: set_of_sites_from_input_data_def item_limits [OF assms(1)]
      energies_of_records [OF assms(4)] min_of_records [OF assms(3)]
      flatten_multi_site_numbers [OF assms(4)] alloc_def split: sum.split)

text \<open>
  The scenario of the claim: with \<open>boltzmann_eV * temperature = 0.025\<close>, the energies
  \<open>-0.01\<close>, \<open>0.03\<close> and \<open>-0.05\<close> become \<open>0\<close>, \<open>0.03\<close> and \<open>-0.05\<close>.
\<close>

theorem multi_site_zeroes_within_kT_witness:
  "set_of_sites_from_input_data
     (\<lambda>i lo hi c off. Inr [[Text ''A'', Number 1, Number 0.5, Number 0, Number (- 0.01)],
                           [Text ''A'', Number 2, Number 1.5, Number 0, Number 0.03],
                           [Text ''A'', Number 3, Number 2.5, Number 0, Number (- 0.05)]])
     (\<lambda>l d c core t. case l ! 4 of
         Number e \<Rightarrow> Inr \<lparr>site_label = ''A'', site_x = 0, site_defect_energies = [e]\<rparr>
       | Text s \<Rightarrow> Inl TypeError)
     (1 / 12000) () [0, 10] () () ''multi_site'' 300 0 []
   = (Inr \<lparr>sites = 0\<rparr>,
      [SiteList [\<lparr>site_label = ''A'', site_x = 0, site_defect_energies = [0]\<rparr>,
                 \<lparr>site_label = ''A'', site_x = 0, site_defect_energies = [0.03]\<rparr>,
                 \<lparr>site_label = ''A'', site_x = 0, site_defect_energies = [- 0.05]\<rparr>]])"
  using multi_site_zeroes_within_kT [of "[0, 10]"
     "\<lambda>i lo hi c off. Inr [[Text ''A'', Number 1, Number 0.5, Number 0, Number (- 0.01)],
                           [Text ''A'', Number 2, Number 1.5, Number 0, Number 0.03],
                           [Text ''A'', Number 3, Number 2.5, Number 0, Number (- 0.05)]]"
     "()" "()" 0 _ "\<lambda>l. case l ! 4 of Number e \<Rightarrow> e | Text s \<Rightarrow> 0"
     "\<lambda>l d c core t. case l ! 4 of
         Number e \<Rightarrow> Inr \<lparr>site_label = ''A'', site_x = 0, site_defect_energies = [e]\<rparr>
       | Text s \<Rightarrow> Inl TypeError" "1 / 12000" "()" 300 "[]"]
  by simp

subsection \<open>No records in the range\<close>

text \<open>
  Claim C5, as the code has it. When \<^verbatim>\<open>load_site_data\<close> returns no record for the two
  limits, \<^verbatim>\<open>set_of_sites_from_input_data\<close> raises the \<^verbatim>\<open>ValueError\<close> of the builtin
  \<^verbatim>\<open>min\<close> on an empty sequence, whatever \<^verbatim>\<open>core\<close> is: there is no test for the empty
  list before \<^verbatim>\<open>min\<close>. No \<^verbatim>\<open>Set_of_Sites\<close> is built and the store is as before.
\<close>

theorem empty_input_raises_min_error:
  assumes "1 < length limits"
    and "load_site_data input_data (limits ! 0) (limits ! 1) site_charge offset = Inr []"
  shows "set_of_sites_from_input_data load_site_data site_from_input_file boltzmann_eV
           input_data limits defect_species site_charge core temperature offset h =
         (Inl (ValueError Builtin_min), h)"
  using assms(2) by (simp add: set_of_sites_from_input_data_def item_limits [OF assms(1)])

theorem empty_input_raises_min_error_witness:
  "set_of_sites_from_input_data (\<lambda>i lo hi c off. if lo \<le> 5 \<and> 5 \<le> hi then Inr [[Number 5]] else Inr [])
     (\<lambda>l d c core t. Inl TypeError) (1 / 12000) () [6, 7] () () ''multi_site'' 300 0
     [NdArray (Arr1 [0, 1])]
   = (Inl (ValueError Builtin_min), [NdArray (Arr1 [0, 1])])"
  using empty_input_raises_min_error [of "[6, 7]"
     "\<lambda>i lo hi c off. if lo \<le> 5 \<and> 5 \<le> hi then Inr [[Number 5]] else Inr []" "()" "()" 0
     "\<lambda>l d c core t. Inl TypeError" "1 / 12000" "()" "''multi_site''" 300
     "[NdArray (Arr1 [0, 1])]"]
  by simp

text \<open>
  The claim as the spec states it asks for a guarded data error in place of the exception
  of \<^verbatim>\<open>min\<close>. At an input whose range holds no record, the exception that reaches the
  caller is the one \<^verbatim>\<open>min\<close> raises.
\<close>

theorem empty_input_not_guarded:
  "py_min [] = Inl (ValueError Builtin_min) \<and>
   set_of_sites_from_input_data (\<lambda>i lo hi c off. Inr [])
     (\<lambda>l d c core t. Inr \<lparr>site_label = ''A'', site_x = 0, site_defect_energies = []\<rparr>)
     (1 / 12000) () [0, 1] () () ''single'' 300 0 []
   = (Inl (ValueError Builtin_min), [])"
  by (simp add: set_of_sites_from_input_data_def item_def)

subsection \<open>Concatenation\<close>

text \<open>
  Claim C10. For a right operand that is not an instance of \<^verbatim>\<open>Set_of_Sites\<close>, a plain list
  for one, \<^verbatim>\<open>__add__\<close> raises \<^verbatim>\<open>TypeError\<close> and the store is as before. Whenever
  \<^verbatim>\<open>__add__\<close> returns, the right operand is an instance of \<^verbatim>\<open>Set_of_Sites\<close>. And when the
  right operand is a \<^verbatim>\<open>Set_of_Sites\<close> and both hold a list of sites, the result is a new
  \<^verbatim>\<open>Set_of_Sites\<close> around a new list, the sites of the left operand followed by those of
  the right.
\<close>

theorem add_only_Set_of_Sites:
  "(\<not> isinstance_Set_of_Sites other \<longrightarrow> add self other h = (Inl TypeError, h)) \<and>
   (\<forall>r h'. add self other h = (Inr r, h') \<longrightarrow> isinstance_Set_of_Sites other) \<and>
   (\<forall>xs ys s. other = Set_of_Sites_object s \<and> read_sites h (sites self) = Inr xs \<and>
       read_sites h (sites s) = Inr ys \<longrightarrow>
       add self other h = (Inr \<lparr>sites = length h\<rparr>, h @ [SiteList (xs @ ys)]))"
  by (cases other) (simp_all add: add_def isinstance_Set_of_Sites_def alloc_def)

theorem add_only_Set_of_Sites_witness:
  "add \<lparr>sites = 0\<rparr> (List_object 1)
     [SiteList [\<lparr>site_label = ''A'', site_x = 1, site_defect_energies = [0]\<rparr>],
      SiteList [\<lparr>site_label = ''B'', site_x = 2, site_defect_energies = [0]\<rparr>]]
   = (Inl TypeError,
      [SiteList [\<lparr>site_label = ''A'', site_x = 1, site_defect_energies = [0]\<rparr>],
       SiteList [\<lparr>site_label = ''B'', site_x = 2, site_defect_energies = [0]\<rparr>]]) \<and>
   add \<lparr>sites = 0\<rparr> (Set_of_Sites_object \<lparr>sites = 1\<rparr>)
     [SiteList [\<lparr>site_label = ''A'', site_x = 1, site_defect_energies = [0]\<rparr>],
      SiteList [\<lparr>site_label = ''B'', site_x = 2, site_defect_energies = [0]\<rparr>]]
   = (Inr \<lparr>sites = 2\<rparr>,
      [SiteList [\<lparr>site_label = ''A'', site_x = 1, site_defect_energies = [0]\<rparr>],
       SiteList [\<lparr>site_label = ''B'', site_x = 2, site_defect_energies = [0]\<rparr>],
       SiteList [\<lparr>site_label = ''A'', site_x = 1, site_defect_energies = [0]\<rparr>,
                 \<lparr>site_label = ''B'', site_x = 2, site_defect_energies = [0]\<rparr>]]) \<and>
   isinstance_Set_of_Sites (Set_of_Sites_object \<lparr>sites = 1\<rparr>)"
  using add_only_Set_of_Sites [of "List_object 1" "\<lparr>sites = 0\<rparr>"
      "[SiteList [\<lparr>site_label = ''A'', site_x = 1, site_defect_energies = [0]\<rparr>],
        SiteList [\<lparr>site_label = ''B'', site_x = 2, site_defect_energies = [0]\<rparr>]]"]
    add_only_Set_of_Sites [of "Set_of_Sites_object \<lparr>sites = 1\<rparr>" "\<lparr>sites = 0\<rparr>"
      "[SiteList [\<lparr>site_label = ''A'', site_x = 1, site_defect_energies = [0]\<rparr>],
        SiteList [\<lparr>site_label = ''B'', site_x = 2, site_defect_energies = [0]\<rparr>]]"]
  by (simp add: isinstance_Set_of_Sites_def read_sites_def)

subsection \<open>The store under allocation and update\<close>

lemma read_array_append:
  "a < length h \<Longrightarrow> read_array (h @ ext) a = read_array h a"
  by (simp add: read_array_def nth_append)

lemma read_sites_append:
  "a < length h \<Longrightarrow> read_sites (h @ ext) a = read_sites h a"
  by (simp add: read_sites_def nth_append)

lemma update_array_fresh:
  "update_array (length h) f (h @ [NdArray arr]) =
     (case f arr of Inl e \<Rightarrow> Inl e | Inr arr' \<Rightarrow> Inr (h @ [NdArray arr']))"
  by (simp add: update_array_def read_array_def split: sum.split)

lemma for_each_fresh:
  assumes "\<And>s arr. step s (h @ [NdArray arr]) =
             (case F s arr of Inl e \<Rightarrow> Inl e | Inr arr' \<Rightarrow> Inr (h @ [NdArray arr']))"
  shows "for_each step ss (h @ [NdArray arr]) =
           (case for_each F ss arr of (r, arr') \<Rightarrow> (r, h @ [NdArray arr']))"
proof (induction ss arbitrary: arr)
  case Nil
  show ?case by simp
next
  case (Cons s ss)
  show ?case
  proof (cases "F s arr")
    case (Inl e)
    then show ?thesis by (simp add: assms)
  next
    case (Inr arr')
    then show ?thesis using Cons.IH [of arr'] by (simp add: assms)
  qed
qed

lemma for_each_total:
  assumes "\<And>s ys. s \<in> set ss \<Longrightarrow> length ys = n \<Longrightarrow> F s (Arr1 ys) = Inr (Arr1 (upd ys s))"
    and "\<And>s ys. length ys = n \<Longrightarrow> length (upd ys s) = n"
    and "length ys = n"
  shows "for_each F ss (Arr1 ys) = (Inr (), Arr1 (foldl upd ys ss))"
  using assms(1,3)
proof (induction ss arbitrary: ys)
  case Nil
  show ?case by simp
next
  case (Cons s ss)
  have "F s (Arr1 ys) = Inr (Arr1 (upd ys s))" using Cons.prems by simp
  moreover have "for_each F ss (Arr1 (upd ys s)) = (Inr (), Arr1 (foldl upd (upd ys s) ss))"
    using Cons.prems assms(2) by (intro Cons.IH) simp_all
  ultimately show ?case by simp
qed

lemma length_foldl_update:
  "(\<And>s ys. length (upd ys s) = length ys) \<Longrightarrow> length (foldl upd ys ss) = length ys"
  by (induction ss arbitrary: ys) simp_all

lemma foldl_overwrite_nth:
  "k < length ys \<Longrightarrow>
   foldl (\<lambda>ys s. ys[ix s := pr s]) ys ss ! k =
     (if filter (\<lambda>s. ix s = k) ss = [] then ys ! k
      else pr (last (filter (\<lambda>s. ix s = k) ss)))"
proof (induction ss rule: rev_induct)
  case Nil
  show ?case by simp
next
  case (snoc s ss)
  have len: "length (foldl (\<lambda>ys s. ys[ix s := pr s]) ys ss) = length ys"
    by (rule length_foldl_update) simp
  show ?case
  proof (cases "ix s = k")
    case True
    then show ?thesis using snoc.prems len by simp
  next
    case False
    then show ?thesis using snoc by simp
  qed
qed

lemma foldl_accumulate_nth:
  "k < length ys \<Longrightarrow>
   foldl (\<lambda>ys s. ys[ix s := ys ! ix s + c s]) ys ss ! k =
     ys ! k + sum_list (map c (filter (\<lambda>s. ix s = k) ss))"
proof (induction ss rule: rev_induct)
  case Nil
  show ?case by simp
next
  case (snoc s ss)
  have len: "length (foldl (\<lambda>ys s. ys[ix s := ys ! ix s + c s]) ys ss) = length ys"
    by (rule length_foldl_update) simp
  show ?case
  proof (cases "ix s = k")
    case True
    then show ?thesis using snoc len by (simp add: add.assoc)
  next
    case False
    then show ?thesis using snoc by simp
  qed
qed

subsection \<open>The methods on the contents of their arguments\<close>

lemma calculate_probabilities_arrays:
  assumes "grid_x grid < length h" and "phi < length h" and "sites self < length h"
  shows "calculate_probabilities idx phx prob self grid phi temp h =
    (case read_array h (grid_x grid) of
       Inl e \<Rightarrow> (Inl e, h)
     | Inr gx \<Rightarrow>
        (case read_sites h (sites self) of
           Inl e \<Rightarrow> (Inl e, h @ [NdArray (np_zeros_like gx)])
         | Inr ss \<Rightarrow>
            (case for_each (\<lambda>site arr. and_then (read_array h phi) (\<lambda>pa.
                      assign_probability idx phx prob pa gx temp site arr)) ss (np_zeros_like gx) of
               (Inl e, arr) \<Rightarrow> (Inl e, h @ [NdArray arr])
             | (Inr u, arr) \<Rightarrow> (Inr (length h), h @ [NdArray arr]))))"
proof (cases "read_array h (grid_x grid)")
  case (Inl e)
  then show ?thesis by (simp add: calculate_probabilities_def)
next
  case (Inr gx)
  have step: "\<And>s arr.
      and_then (read_array (h @ [NdArray arr]) phi) (\<lambda>pa.
      and_then (read_array (h @ [NdArray arr]) (grid_x grid)) (\<lambda>gx'.
        update_array (length h) (assign_probability idx phx prob pa gx' temp s)
          (h @ [NdArray arr]))) =
      (case and_then (read_array h phi) (\<lambda>pa. assign_probability idx phx prob pa gx temp s arr) of
         Inl e \<Rightarrow> Inl e | Inr arr' \<Rightarrow> Inr (h @ [NdArray arr']))"
    using assms Inr
    by (cases "read_array h phi")
       (simp_all add: read_array_append update_array_fresh split: sum.split)
  show ?thesis
    using assms Inr
    by (simp add: calculate_probabilities_def alloc_def read_sites_append
        for_each_fresh [where F = "\<lambda>site arr. and_then (read_array h phi) (\<lambda>pa.
                      assign_probability idx phx prob pa gx temp site arr)", OF step]
        split: sum.split prod.split)
qed

lemma subgrid_calculate_defect_density_arrays:
  assumes "grid_x sub_grid < length h" and "grid_volumes sub_grid < length h"
    and "grid_x full_grid < length h" and "phi < length h" and "sites self < length h"
  shows "subgrid_calculate_defect_density idx phx prob self sub_grid full_grid phi temp h =
    (case read_array h (grid_x sub_grid) of
       Inl e \<Rightarrow> (Inl e, h)
     | Inr gx \<Rightarrow>
        (case read_sites h (sites self) of
           Inl e \<Rightarrow> (Inl e, h @ [NdArray (np_zeros_like gx)])
         | Inr ss \<Rightarrow>
            (case for_each (\<lambda>site arr.
                      and_then (read_array h phi) (\<lambda>pa.
                      and_then (read_array h (grid_x full_grid)) (\<lambda>fx.
                      and_then (read_array h (grid_volumes sub_grid)) (\<lambda>volumes.
                        add_density idx phx prob pa gx fx volumes temp site arr))))
                    ss (np_zeros_like gx) of
               (Inl e, arr) \<Rightarrow> (Inl e, h @ [NdArray arr])
             | (Inr u, arr) \<Rightarrow> (Inr (length h), h @ [NdArray arr]))))"
proof (cases "read_array h (grid_x sub_grid)")
  case (Inl e)
  then show ?thesis by (simp add: subgrid_calculate_defect_density_def)
next
  case (Inr gx)
  have step: "\<And>s arr.
      and_then (read_array (h @ [NdArray arr]) (grid_x sub_grid)) (\<lambda>gx'.
      and_then (read_array (h @ [NdArray arr]) phi) (\<lambda>pa.
      and_then (read_array (h @ [NdArray arr]) (grid_x full_grid)) (\<lambda>fx.
      and_then (read_array (h @ [NdArray arr]) (grid_volumes sub_grid)) (\<lambda>volumes.
        update_array (length h) (add_density idx phx prob pa gx' fx volumes temp s)
          (h @ [NdArray arr]))))) =
      (case and_then (read_array h phi) (\<lambda>pa.
            and_then (read_array h (grid_x full_grid)) (\<lambda>fx.
            and_then (read_array h (grid_volumes sub_grid)) (\<lambda>volumes.
              add_density idx phx prob pa gx fx volumes temp s arr))) of
         Inl e \<Rightarrow> Inl e | Inr arr' \<Rightarrow> Inr (h @ [NdArray arr']))"
    using assms Inr
    by (cases "read_array h phi"; cases "read_array h (grid_x full_grid)";
        cases "read_array h (grid_volumes sub_grid)")
       (simp_all add: read_array_append update_array_fresh split: sum.split)
  show ?thesis
    using assms Inr
    by (simp add: subgrid_calculate_defect_density_def alloc_def read_sites_append
        for_each_fresh [where F = "\<lambda>site arr.
                      and_then (read_array h phi) (\<lambda>pa.
                      and_then (read_array h (grid_x full_grid)) (\<lambda>fx.
                      and_then (read_array h (grid_volumes sub_grid)) (\<lambda>volumes.
                        add_density idx phx prob pa gx fx volumes temp site arr)))", OF step]
        split: sum.split prod.split)
qed

lemma subgrid_same_grid:
  "subgrid_calculate_defect_density idx phx prob self grid grid phi temp h =
   calculate_defect_density idx phx prob self grid phi temp h"
proof -
  have eq: "\<And>p. (\<lambda>site h'.
           and_then (read_array h' (grid_x grid)) (\<lambda>gx.
           and_then (read_array h' phi) (\<lambda>phi_array.
           and_then (read_array h' (grid_x grid)) (\<lambda>fx.
           and_then (read_array h' (grid_volumes grid)) (\<lambda>volumes.
             update_array p (add_density idx phx prob phi_array gx fx volumes temp site) h'))))) =
        (\<lambda>site h'.
           and_then (read_array h' (grid_x grid)) (\<lambda>gx.
           and_then (read_array h' phi) (\<lambda>phi_array.
           and_then (read_array h' (grid_volumes grid)) (\<lambda>volumes.
             update_array p (add_density idx phx prob phi_array gx gx volumes temp site) h'))))"
  proof (intro ext)
    fix p site h'
    show "and_then (read_array h' (grid_x grid)) (\<lambda>gx.
           and_then (read_array h' phi) (\<lambda>phi_array.
           and_then (read_array h' (grid_x grid)) (\<lambda>fx.
           and_then (read_array h' (grid_volumes grid)) (\<lambda>volumes.
             update_array p (add_density idx phx prob phi_array gx fx volumes temp site) h')))) =
          and_then (read_array h' (grid_x grid)) (\<lambda>gx.
           and_then (read_array h' phi) (\<lambda>phi_array.
           and_then (read_array h' (grid_volumes grid)) (\<lambda>volumes.
             update_array p (add_density idx phx prob phi_array gx gx volumes temp site) h')))"
      by (cases "read_array h' (grid_x grid)"; cases "read_array h' phi") simp_all
  qed
  show ?thesis
    unfolding subgrid_calculate_defect_density_def calculate_defect_density_def eq ..
qed

lemma calculate_energies_on_grid_arrays:
  assumes "grid_x grid < length h" and "sites self < length h"
  shows "calculate_energies_on_grid idx eax self grid phi h =
    (case read_sites h (sites self) of
       Inl e \<Rightarrow> (Inl e, h @ [NdArray (Arr0 0)])
     | Inr ss \<Rightarrow>
        (case for_each (\<lambda>site arr. and_then (read_array h (grid_x grid)) (\<lambda>gx.
                  assign_energy idx eax gx site arr)) ss (Arr0 0) of
           (Inl e, arr) \<Rightarrow> (Inl e, h @ [NdArray arr])
         | (Inr u, arr) \<Rightarrow> (Inr (length h), h @ [NdArray arr])))"
proof -
  have step: "\<And>s arr.
      and_then (read_array (h @ [NdArray arr]) (grid_x grid)) (\<lambda>gx.
        update_array (length h) (assign_energy idx eax gx s) (h @ [NdArray arr])) =
      (case and_then (read_array h (grid_x grid)) (\<lambda>gx. assign_energy idx eax gx s arr) of
         Inl e \<Rightarrow> Inl e | Inr arr' \<Rightarrow> Inr (h @ [NdArray arr']))"
    using assms
    by (cases "read_array h (grid_x grid)")
       (simp_all add: read_array_append update_array_fresh split: sum.split)
  show ?thesis
    using assms
    by (simp add: calculate_energies_on_grid_def alloc_def read_sites_append
        for_each_fresh [where F = "\<lambda>site arr. and_then (read_array h (grid_x grid)) (\<lambda>gx.
                  assign_energy idx eax gx site arr)", OF step]
        split: sum.split prod.split)
qed

subsection \<open>Runs without an exception\<close>

lemma read_array_at: "a < length h \<Longrightarrow> h ! a = NdArray arr \<Longrightarrow> read_array h a = Inr arr"
  by (simp add: read_array_def)

lemma read_sites_at: "a < length h \<Longrightarrow> h ! a = SiteList ss \<Longrightarrow> read_sites h a = Inr ss"
  by (simp add: read_sites_def)

lemma assign_probability_total:
  assumes "phx pa gx (site_x s) = Inr v" and "prob s v temp = Inr [p]"
    and "idx gx (site_x s) = Inr i" and "axis_index (length ys) i = Inr k"
  shows "assign_probability idx phx prob pa gx temp s (Arr1 ys) = Inr (Arr1 (ys[k := p]))"
  using assms by (simp add: assign_probability_def setitem_array_def)

lemma add_density_total:
  assumes "idx gx (site_x s) = Inr i" and "axis_index (length ys) i = Inr k"
    and "length vs = length ys"
    and "phx pa fx (site_x s) = Inr v" and "prob s v temp = Inr [p]"
  shows "add_density idx phx prob pa gx fx (Arr1 vs) temp s (Arr1 ys) =
           Inr (Arr1 (ys[k := ys ! k + p / vs ! k]))"
  using assms by (simp add: add_density_def getitem_def setitem_array_def)

lemma overwrite_result:
  "foldl (\<lambda>ys s. ys[ix s := pr s]) (replicate n (0::real)) ss =
     map (\<lambda>k. if filter (\<lambda>s. ix s = k) ss = [] then 0
               else pr (last (filter (\<lambda>s. ix s = k) ss))) [0..<n]"
proof (rule nth_equalityI)
  show "length (foldl (\<lambda>ys s. ys[ix s := pr s]) (replicate n 0) ss) =
        length (map (\<lambda>k. if filter (\<lambda>s. ix s = k) ss = [] then 0
               else pr (last (filter (\<lambda>s. ix s = k) ss))) [0..<n])"
    by (simp add: length_foldl_update)
next
  fix k
  assume "k < length (foldl (\<lambda>ys s. ys[ix s := pr s]) (replicate n 0) ss)"
  then have k: "k < n" by (simp add: length_foldl_update)
  then show "foldl (\<lambda>ys s. ys[ix s := pr s]) (replicate n 0) ss ! k =
        map (\<lambda>k. if filter (\<lambda>s. ix s = k) ss = [] then 0
               else pr (last (filter (\<lambda>s. ix s = k) ss))) [0..<n] ! k"
    by (simp add: foldl_overwrite_nth)
qed

lemma accumulate_result:
  "foldl (\<lambda>ys s. ys[ix s := ys ! ix s + pr s / vs ! ix s]) (replicate n (0::real)) ss =
     map (\<lambda>k. sum_list (map (\<lambda>s. pr s / vs ! k) (filter (\<lambda>s. ix s = k) ss))) [0..<n]"
proof (rule nth_equalityI)
  show "length (foldl (\<lambda>ys s. ys[ix s := ys ! ix s + pr s / vs ! ix s]) (replicate n 0) ss) =
        length (map (\<lambda>k. sum_list (map (\<lambda>s. pr s / vs ! k) (filter (\<lambda>s. ix s = k) ss))) [0..<n])"
    by (simp add: length_foldl_update)
next
  fix k
  assume "k < length (foldl (\<lambda>ys s. ys[ix s := ys ! ix s + pr s / vs ! ix s]) (replicate n 0) ss)"
  then have k: "k < n" by (simp add: length_foldl_update)
  have eq: "sum_list (map (\<lambda>s. pr s / vs ! ix s) (filter (\<lambda>s. ix s = k) ss)) =
        sum_list (map (\<lambda>s. pr s / vs ! k) (filter (\<lambda>s. ix s = k) ss))"
    by (rule arg_cong [where f = sum_list], rule map_cong) simp_all
  have "foldl (\<lambda>ys s. ys[ix s := ys ! ix s + pr s / vs ! ix s]) (replicate n 0) ss ! k =
        replicate n 0 ! k + sum_list (map (\<lambda>s. pr s / vs ! ix s) (filter (\<lambda>s. ix s = k) ss))"
    using k by (intro foldl_accumulate_nth [where c = "\<lambda>s. pr s / vs ! ix s"]) simp
  with k show "foldl (\<lambda>ys s. ys[ix s := ys ! ix s + pr s / vs ! ix s]) (replicate n 0) ss ! k =
        map (\<lambda>k. sum_list (map (\<lambda>s. pr s / vs ! k) (filter (\<lambda>s. ix s = k) ss))) [0..<n] ! k"
    by (simp add: eq)
qed

lemma probabilities_total:
  assumes "grid_x grid < length h" and "h ! grid_x grid = NdArray (Arr1 xs)"
    and "phi < length h" and "h ! phi = NdArray pa"
    and "sites self < length h" and "h ! sites self = SiteList ss"
    and ok: "\<forall>s\<in>set ss. idx (Arr1 xs) (site_x s) = Inr (raw s) \<and>
               axis_index (length xs) (raw s) = Inr (ix s) \<and>
               phx pa (Arr1 xs) (site_x s) = Inr (pot s) \<and>
               prob s (pot s) temp = Inr [pr s]"
  shows "calculate_probabilities idx phx prob self grid phi temp h =
           (Inr (length h),
            h @ [NdArray (Arr1 (map (\<lambda>k. if filter (\<lambda>s. ix s = k) ss = [] then 0
                                          else pr (last (filter (\<lambda>s. ix s = k) ss)))
                                   [0..<length xs]))])"
proof -
  have loop: "for_each (assign_probability idx phx prob pa (Arr1 xs) temp) ss
               (Arr1 (replicate (length xs) 0)) =
             (Inr (), Arr1 (foldl (\<lambda>ys s. ys[ix s := pr s]) (replicate (length xs) 0) ss))"
  proof (rule for_each_total [where n = "length xs"])
    fix s and ys :: "real list"
    assume "s \<in> set ss" and "length ys = length xs"
    then show "assign_probability idx phx prob pa (Arr1 xs) temp s (Arr1 ys) =
               Inr (Arr1 (ys[ix s := pr s]))"
      using ok
      by (simp add: assign_probability_total [where v = "pot s" and i = "raw s"])
  qed simp_all
  show ?thesis
    using assms(1-6)
    by (simp add: calculate_probabilities_arrays read_array_at read_sites_at np_zeros_like_def
        loop overwrite_result)
qed

lemma density_total:
  assumes "grid_x sub_grid < length h" and "h ! grid_x sub_grid = NdArray (Arr1 xs)"
    and "grid_volumes sub_grid < length h" and "h ! grid_volumes sub_grid = NdArray (Arr1 vs)"
    and "length vs = length xs"
    and "grid_x full_grid < length h" and "h ! grid_x full_grid = NdArray fx"
    and "phi < length h" and "h ! phi = NdArray pa"
    and "sites self < length h" and "h ! sites self = SiteList ss"
    and ok: "\<forall>s\<in>set ss. idx (Arr1 xs) (site_x s) = Inr (raw s) \<and>
               axis_index (length xs) (raw s) = Inr (ix s) \<and>
               phx pa fx (site_x s) = Inr (pot s) \<and>
               prob s (pot s) temp = Inr [pr s]"
  shows "subgrid_calculate_defect_density idx phx prob self sub_grid full_grid phi temp h =
           (Inr (length h),
            h @ [NdArray (Arr1 (map (\<lambda>k. sum_list (map (\<lambda>s. pr s / vs ! k)
                                                      (filter (\<lambda>s. ix s = k) ss)))
                                   [0..<length xs]))])"
proof -
  have loop: "for_each (add_density idx phx prob pa (Arr1 xs) fx (Arr1 vs) temp) ss
               (Arr1 (replicate (length xs) 0)) =
             (Inr (), Arr1 (foldl (\<lambda>ys s. ys[ix s := ys ! ix s + pr s / vs ! ix s])
                              (replicate (length xs) 0) ss))"
  proof (rule for_each_total [where n = "length xs"])
    fix s and ys :: "real list"
    assume "s \<in> set ss" and "length ys = length xs"
    then show "add_density idx phx prob pa (Arr1 xs) fx (Arr1 vs) temp s (Arr1 ys) =
               Inr (Arr1 (ys[ix s := ys ! ix s + pr s / vs ! ix s]))"
      using ok assms(5)
      by (simp add: add_density_total [where v = "pot s" and i = "raw s"])
  qed simp_all
  show ?thesis
    using assms(1-11)
    by (simp add: subgrid_calculate_defect_density_arrays read_array_at read_sites_at
        np_zeros_like_def loop accumulate_result)
qed

subsection \<open>What the methods return\<close>

text \<open>
  In the three theorems of this subsection the arguments are as a caller passes them:
  \<open>grid.x\<close> is a one-dimensional array \<open>xs\<close>, the potential an array \<open>pa\<close>, the
  collection holds the list of sites \<open>ss\<close>, and for each site the collaborators return:
  the index \<open>raw s\<close>, which numpy resolves on the axis of \<open>xs\<close> to the position \<open>ix s\<close>;
  the local potential \<open>pot s\<close>; and one probability \<open>pr s\<close>.

  Claim C3. \<^verbatim>\<open>calculate_probabilities\<close> returns a new array of the length of \<open>grid.x\<close>.
  Its entry at \<open>k\<close> is the probability of the last site of the collection that maps to
  \<open>k\<close>: each site's probability is assigned, not added, so a later site overwrites an
  earlier one at the same index. An entry that no site maps to is zero.
\<close>

theorem probabilities_last_writer_wins:
  assumes "grid_x grid < length h" and "h ! grid_x grid = NdArray (Arr1 xs)"
    and "phi < length h" and "h ! phi = NdArray pa"
    and "sites self < length h" and "h ! sites self = SiteList ss"
    and "\<forall>s\<in>set ss. index_of_grid_at_x (Arr1 xs) (site_x s) = Inr (raw s) \<and>
               axis_index (length xs) (raw s) = Inr (ix s) \<and>
               phi_at_x pa (Arr1 xs) (site_x s) = Inr (pot s) \<and>
               probabilities s (pot s) temp = Inr [pr s]"
  shows "calculate_probabilities index_of_grid_at_x phi_at_x probabilities self grid phi temp h =
           (Inr (length h),
            h @ [NdArray (Arr1 (map (\<lambda>k. if filter (\<lambda>s. ix s = k) ss = [] then 0
                                          else pr (last (filter (\<lambda>s. ix s = k) ss)))
                                   [0..<length xs]))])"
  using assms by (rule probabilities_total)

text \<open>
  Two sites whose nearest gridpoint is index 1, the first with probability \<open>1/4\<close>, the
  second with \<open>3/4\<close>: the entry is \<open>3/4\<close>.
\<close>

theorem probabilities_last_writer_wins_witness:
  "calculate_probabilities
     (\<lambda>gx v. case gx of Arr1 xs \<Rightarrow> Inr (nearest_gridpoint xs v) | Arr0 y \<Rightarrow> Inl TypeError)
     (\<lambda>phi gx v. Inr 0)
     (\<lambda>s v t. Inr [if site_label s = ''A'' then 1 / 4 else 3 / 4])
     \<lparr>sites = 0\<rparr> \<lparr>grid_x = 1, grid_volumes = 2\<rparr> 3 300
     [SiteList [\<lparr>site_label = ''A'', site_x = 1.05, site_defect_energies = [0]\<rparr>,
                \<lparr>site_label = ''B'', site_x = 0.96, site_defect_energies = [0]\<rparr>],
      NdArray (Arr1 [0, 1, 2, 3, 4]), NdArray (Arr1 [1, 1, 1, 1, 1]),
      NdArray (Arr1 [0, 0, 0, 0, 0])]
   = (Inr 4,
      [SiteList [\<lparr>site_label = ''A'', site_x = 1.05, site_defect_energies = [0]\<rparr>,
                 \<lparr>site_label = ''B'', site_x = 0.96, site_defect_energies = [0]\<rparr>],
       NdArray (Arr1 [0, 1, 2, 3, 4]), NdArray (Arr1 [1, 1, 1, 1, 1]),
       NdArray (Arr1 [0, 0, 0, 0, 0]),
       NdArray (Arr1 [0, 3 / 4, 0, 0, 0])])"
  using probabilities_last_writer_wins [where
      h = "[SiteList [\<lparr>site_label = ''A'', site_x = 1.05, site_defect_energies = [0]\<rparr>,
                \<lparr>site_label = ''B'', site_x = 0.96, site_defect_energies = [0]\<rparr>],
      NdArray (Arr1 [0, 1, 2, 3, 4]), NdArray (Arr1 [1, 1, 1, 1, 1]),
      NdArray (Arr1 [0, 0, 0, 0, 0])]"
      and grid = "\<lparr>grid_x = 1, grid_volumes = 2\<rparr>" and xs = "[0, 1, 2, 3, 4]"
      and phi = 3 and pa = "Arr1 [0, 0, 0, 0, 0]" and self = "\<lparr>sites = 0\<rparr>"
      and ss = "[\<lparr>site_label = ''A'', site_x = 1.05, site_defect_energies = [0]\<rparr>,
                \<lparr>site_label = ''B'', site_x = 0.96, site_defect_energies = [0]\<rparr>]"
      and index_of_grid_at_x = "\<lambda>gx v. case gx of Arr1 xs \<Rightarrow> Inr (nearest_gridpoint xs v)
                                 | Arr0 y \<Rightarrow> Inl TypeError"
      and raw = "\<lambda>s. nearest_gridpoint [0, 1, 2, 3, 4] (site_x s)"
      and ix = "\<lambda>s. nat (nearest_gridpoint [0, 1, 2, 3, 4] (site_x s))"
      and phi_at_x = "\<lambda>phi gx v. Inr 0" and pot = "\<lambda>s. 0"
      and probabilities = "\<lambda>s v t. Inr [if site_label s = ''A'' then 1 / 4 else 3 / 4]"
      and pr = "\<lambda>s. if site_label s = ''A'' then 1 / 4 else 3 / 4" and temp = 300]
  by (simp add: nearest_gridpoint_def axis_index_def)

text \<open>
  Claim C4. \<^verbatim>\<open>calculate_defect_density\<close> returns a new array of the length of \<open>grid.x\<close>.
  Its entry at \<open>k\<close> is the sum, over the sites that map to \<open>k\<close>, of the site's
  probability divided by the cell volume at \<open>k\<close>. The volumes \<open>vs\<close> are as many as the
  coordinates.
\<close>

theorem defect_density_sums_contributions:
  assumes "grid_x grid < length h" and "h ! grid_x grid = NdArray (Arr1 xs)"
    and "grid_volumes grid < length h" and "h ! grid_volumes grid = NdArray (Arr1 vs)"
    and "length vs = length xs"
    and "phi < length h" and "h ! phi = NdArray pa"
    and "sites self < length h" and "h ! sites self = SiteList ss"
    and "\<forall>s\<in>set ss. index_of_grid_at_x (Arr1 xs) (site_x s) = Inr (raw s) \<and>
               axis_index (length xs) (raw s) = Inr (ix s) \<and>
               phi_at_x pa (Arr1 xs) (site_x s) = Inr (pot s) \<and>
               probabilities s (pot s) temp = Inr [pr s]"
  shows "calculate_defect_density index_of_grid_at_x phi_at_x probabilities self grid phi temp h =
           (Inr (length h),
            h @ [NdArray (Arr1 (map (\<lambda>k. sum_list (map (\<lambda>s. pr s / vs ! k)
                                                      (filter (\<lambda>s. ix s = k) ss)))
                                   [0..<length xs]))])"
  using density_total [where idx = index_of_grid_at_x and phx = phi_at_x
      and prob = probabilities and raw = raw and ix = ix and pot = pot and pr = pr,
      OF assms(1-5) assms(1,2) assms(6-10)]
  by (simp add: subgrid_same_grid)

text \<open>
  The scenario of the claim: coordinates \<open>0, 1, 2, 3, 4\<close>, unit volumes, two sites at
  \<open>1.05\<close> and \<open>0.96\<close>, each with probability \<open>1/2\<close>. The entry at index 1 is \<open>1\<close> and
  every other entry is \<open>0\<close>.
\<close>

theorem defect_density_sums_contributions_witness:
  "calculate_defect_density
     (\<lambda>gx v. case gx of Arr1 xs \<Rightarrow> Inr (nearest_gridpoint xs v) | Arr0 y \<Rightarrow> Inl TypeError)
     (\<lambda>phi gx v. Inr 0)
     (\<lambda>s v t. Inr [1 / 2])
     \<lparr>sites = 0\<rparr> \<lparr>grid_x = 1, grid_volumes = 2\<rparr> 3 300
     [SiteList [\<lparr>site_label = ''A'', site_x = 1.05, site_defect_energies = [0]\<rparr>,
                \<lparr>site_label = ''A'', site_x = 0.96, site_defect_energies = [0]\<rparr>],
      NdArray (Arr1 [0, 1, 2, 3, 4]), NdArray (Arr1 [1, 1, 1, 1, 1]),
      NdArray (Arr1 [0, 0, 0, 0, 0])]
   = (Inr 4,
      [SiteList [\<lparr>site_label = ''A'', site_x = 1.05, site_defect_energies = [0]\<rparr>,
                 \<lparr>site_label = ''A'', site_x = 0.96, site_defect_energies = [0]\<rparr>],
       NdArray (Arr1 [0, 1, 2, 3, 4]), NdArray (Arr1 [1, 1, 1, 1, 1]),
       NdArray (Arr1 [0, 0, 0, 0, 0]),
       NdArray (Arr1 [0, 1, 0, 0, 0])])"
  using defect_density_sums_contributions [where
      h = "[SiteList [\<lparr>site_label = ''A'', site_x = 1.05, site_defect_energies = [0]\<rparr>,
                \<lparr>site_label = ''A'', site_x = 0.96, site_defect_energies = [0]\<rparr>],
      NdArray (Arr1 [0, 1, 2, 3, 4]), NdArray (Arr1 [1, 1, 1, 1, 1]),
      NdArray (Arr1 [0, 0, 0, 0, 0])]"
      and grid = "\<lparr>grid_x = 1, grid_volumes = 2\<rparr>" and xs = "[0, 1, 2, 3, 4]"
      and vs = "[1, 1, 1, 1, 1]"
      and phi = 3 and pa = "Arr1 [0, 0, 0, 0, 0]" and self = "\<lparr>sites = 0\<rparr>"
      and ss = "[\<lparr>site_label = ''A'', site_x = 1.05, site_defect_energies = [0]\<rparr>,
                \<lparr>site_label = ''A'', site_x = 0.96, site_defect_energies = [0]\<rparr>]"
      and index_of_grid_at_x = "\<lambda>gx v. case gx of Arr1 xs \<Rightarrow> Inr (nearest_gridpoint xs v)
                                 | Arr0 y \<Rightarrow> Inl TypeError"
      and raw = "\<lambda>s. nearest_gridpoint [0, 1, 2, 3, 4] (site_x s)"
      and ix = "\<lambda>s. nat (nearest_gridpoint [0, 1, 2, 3, 4] (site_x s))"
      and phi_at_x = "\<lambda>phi gx v. Inr 0" and pot = "\<lambda>s. 0"
      and probabilities = "\<lambda>s v t. Inr [1 / 2]"
      and pr = "\<lambda>s. 1 / 2" and temp = 300]
  by (simp add: nearest_gridpoint_def axis_index_def)

text \<open>
  Claim C6. \<^verbatim>\<open>subgrid_calculate_defect_density\<close> asks \<^verbatim>\<open>phi_at_x\<close> for the potential
  against the coordinates \<open>fx\<close> of \<open>full_grid\<close>, and takes the index and the cell volume
  from \<open>sub_grid\<close>, whose coordinates are \<open>xs\<close> and volumes \<open>vs\<close>. The contributions of
  the sites that map to one index of \<open>sub_grid\<close> are added. With \<open>sub_grid\<close> in both
  places the method is \<^verbatim>\<open>calculate_defect_density\<close>, on every input.
\<close>

theorem subgrid_density_uses_both_grids:
  assumes "grid_x sub_grid < length h" and "h ! grid_x sub_grid = NdArray (Arr1 xs)"
    and "grid_volumes sub_grid < length h" and "h ! grid_volumes sub_grid = NdArray (Arr1 vs)"
    and "length vs = length xs"
    and "grid_x full_grid < length h" and "h ! grid_x full_grid = NdArray fx"
    and "phi < length h" and "h ! phi = NdArray pa"
    and "sites self < length h" and "h ! sites self = SiteList ss"
    and "\<forall>s\<in>set ss. index_of_grid_at_x (Arr1 xs) (site_x s) = Inr (raw s) \<and>
               axis_index (length xs) (raw s) = Inr (ix s) \<and>
               phi_at_x pa fx (site_x s) = Inr (pot s) \<and>
               probabilities s (pot s) temp = Inr [pr s]"
  shows "subgrid_calculate_defect_density index_of_grid_at_x phi_at_x probabilities self
             sub_grid full_grid phi temp h =
           (Inr (length h),
            h @ [NdArray (Arr1 (map (\<lambda>k. sum_list (map (\<lambda>s. pr s / vs ! k)
                                                      (filter (\<lambda>s. ix s = k) ss)))
                                   [0..<length xs]))]) \<and>
         subgrid_calculate_defect_density index_of_grid_at_x phi_at_x probabilities self
             sub_grid sub_grid phi temp h =
           calculate_defect_density index_of_grid_at_x phi_at_x probabilities self
             sub_grid phi temp h"
  using density_total [where idx = index_of_grid_at_x and phx = phi_at_x
      and prob = probabilities and raw = raw and ix = ix and pot = pot and pr = pr, OF assms]
  by (simp add: subgrid_same_grid)

text \<open>
  A sub-grid of two points inside a full grid of five, with a potential that differs from
  point to point and a probability that is the hundredth of the local potential.
\<close>

theorem subgrid_density_uses_both_grids_witness:
  "subgrid_calculate_defect_density
     (\<lambda>gx v. case gx of Arr1 xs \<Rightarrow> Inr (nearest_gridpoint xs v) | Arr0 y \<Rightarrow> Inl TypeError)
     (\<lambda>phi gx v. case (phi, gx) of
          (Arr1 ps, Arr1 xs) \<Rightarrow> Inr (ps ! nat (nearest_gridpoint xs v))
        | _ \<Rightarrow> Inl TypeError)
     (\<lambda>s v t. Inr [v / 100])
     \<lparr>sites = 0\<rparr> \<lparr>grid_x = 1, grid_volumes = 2\<rparr> \<lparr>grid_x = 3, grid_volumes = 4\<rparr> 5 300
     [SiteList [\<lparr>site_label = ''A'', site_x = 1.1, site_defect_energies = [0]\<rparr>,
                \<lparr>site_label = ''A'', site_x = 1.2, site_defect_energies = [0]\<rparr>,
                \<lparr>site_label = ''B'', site_x = 2, site_defect_energies = [0]\<rparr>],
      NdArray (Arr1 [1, 2]), NdArray (Arr1 [2, 4]),
      NdArray (Arr1 [0, 1, 2, 3, 4]), NdArray (Arr1 [1, 1, 1, 1, 1]),
      NdArray (Arr1 [10, 20, 30, 40, 50])]
   = (Inr 6,
      [SiteList [\<lparr>site_label = ''A'', site_x = 1.1, site_defect_energies = [0]\<rparr>,
                 \<lparr>site_label = ''A'', site_x = 1.2, site_defect_energies = [0]\<rparr>,
                 \<lparr>site_label = ''B'', site_x = 2, site_defect_energies = [0]\<rparr>],
       NdArray (Arr1 [1, 2]), NdArray (Arr1 [2, 4]),
       NdArray (Arr1 [0, 1, 2, 3, 4]), NdArray (Arr1 [1, 1, 1, 1, 1]),
       NdArray (Arr1 [10, 20, 30, 40, 50]),
       NdArray (Arr1 [1 / 5, 3 / 40])])"
  using subgrid_density_uses_both_grids [where
      h = "[SiteList [\<lparr>site_label = ''A'', site_x = 1.1, site_defect_energies = [0]\<rparr>,
                \<lparr>site_label = ''A'', site_x = 1.2, site_defect_energies = [0]\<rparr>,
                \<lparr>site_label = ''B'', site_x = 2, site_defect_energies = [0]\<rparr>],
      NdArray (Arr1 [1, 2]), NdArray (Arr1 [2, 4]),
      NdArray (Arr1 [0, 1, 2, 3, 4]), NdArray (Arr1 [1, 1, 1, 1, 1]),
      NdArray (Arr1 [10, 20, 30, 40, 50])]"
      and sub_grid = "\<lparr>grid_x = 1, grid_volumes = 2\<rparr>"
      and full_grid = "\<lparr>grid_x = 3, grid_volumes = 4\<rparr>"
      and xs = "[1, 2]" and vs = "[2, 4]" and fx = "Arr1 [0, 1, 2, 3, 4]"
      and phi = 5 and pa = "Arr1 [10, 20, 30, 40, 50]" and self = "\<lparr>sites = 0\<rparr>"
      and ss = "[\<lparr>site_label = ''A'', site_x = 1.1, site_defect_energies = [0]\<rparr>,
                \<lparr>site_label = ''A'', site_x = 1.2, site_defect_energies = [0]\<rparr>,
                \<lparr>site_label = ''B'', site_x = 2, site_defect_energies = [0]\<rparr>]"
      and index_of_grid_at_x = "\<lambda>gx v. case gx of Arr1 xs \<Rightarrow> Inr (nearest_gridpoint xs v)
                                 | Arr0 y \<Rightarrow> Inl TypeError"
      and raw = "\<lambda>s. nearest_gridpoint [1, 2] (site_x s)"
      and ix = "\<lambda>s. nat (nearest_gridpoint [1, 2] (site_x s))"
      and phi_at_x = "\<lambda>phi gx v. case (phi, gx) of
          (Arr1 ps, Arr1 xs) \<Rightarrow> Inr (ps ! nat (nearest_gridpoint xs v))
        | _ \<Rightarrow> Inl TypeError"
      and pot = "\<lambda>s. [10, 20, 30, 40, 50] ! nat (nearest_gridpoint [0, 1, 2, 3, 4] (site_x s))"
      and probabilities = "\<lambda>s v t. Inr [v / 100]"
      and pr = "\<lambda>s. [10, 20, 30, 40, 50] ! nat (nearest_gridpoint [0, 1, 2, 3, 4] (site_x s)) / 100"
      and temp = 300]
  by (simp add: nearest_gridpoint_def axis_index_def)

subsection \<open>The energies on the grid\<close>

text \<open>
  Claim C1, at an input where the code departs from it. Two sites, with the energies
  \<open>0.3\<close> and \<open>0.4\<close>, have index 1 of the coordinates \<open>0, 1, 2\<close> as their nearest
  gridpoint. \<^verbatim>\<open>calculate_energies_on_grid\<close> raises \<^verbatim>\<open>IndexError\<close> at the first site, its
  array being zero-dimensional. And the loop itself, run on a zero array of the length of
  the coordinates, leaves \<open>0.4\<close> at index 1, the energy of the second site, where the sum
  is \<open>0.7\<close>: the statement \<^verbatim>\<open>=+\<close> assigns.
\<close>

theorem energies_overwritten_not_summed:
  "calculate_energies_on_grid
     (\<lambda>gx v. case gx of Arr1 xs \<Rightarrow> Inr (nearest_gridpoint xs v) | Arr0 y \<Rightarrow> Inl TypeError)
     (\<lambda>es gx v. case es of [] \<Rightarrow> Inl IndexError | e # _ \<Rightarrow> Inr e)
     \<lparr>sites = 0\<rparr> \<lparr>grid_x = 1, grid_volumes = 2\<rparr> 3
     [SiteList [\<lparr>site_label = ''A'', site_x = 1.05, site_defect_energies = [0.3]\<rparr>,
                \<lparr>site_label = ''A'', site_x = 0.96, site_defect_energies = [0.4]\<rparr>],
      NdArray (Arr1 [0, 1, 2]), NdArray (Arr1 [1, 1, 1]), NdArray (Arr1 [0, 0, 0])]
   = (Inl IndexError,
      [SiteList [\<lparr>site_label = ''A'', site_x = 1.05, site_defect_energies = [0.3]\<rparr>,
                 \<lparr>site_label = ''A'', site_x = 0.96, site_defect_energies = [0.4]\<rparr>],
       NdArray (Arr1 [0, 1, 2]), NdArray (Arr1 [1, 1, 1]), NdArray (Arr1 [0, 0, 0]),
       NdArray (Arr0 0)]) \<and>
   for_each (assign_energy
       (\<lambda>gx v. case gx of Arr1 xs \<Rightarrow> Inr (nearest_gridpoint xs v) | Arr0 y \<Rightarrow> Inl TypeError)
       (\<lambda>es gx v. case es of [] \<Rightarrow> Inl IndexError | e # _ \<Rightarrow> Inr e)
       (Arr1 [0, 1, 2]))
     [\<lparr>site_label = ''A'', site_x = 1.05, site_defect_energies = [0.3]\<rparr>,
      \<lparr>site_label = ''A'', site_x = 0.96, site_defect_energies = [0.4]\<rparr>]
     (Arr1 [0, 0, 0])
   = (Inr (), Arr1 [0, 0.4, 0])"
  by (simp add: calculate_energies_on_grid_def read_array_def read_sites_def alloc_def
      update_array_def assign_energy_def setitem_def unary_plus_def
      nearest_gridpoint_def axis_index_def)

text \<open>
  Claim C2, at an input where the code departs from it. On a grid of three coordinates and
  a collection without sites, \<^verbatim>\<open>calculate_energies_on_grid\<close> returns a zero-dimensional
  array, which has no length; with one site in the collection it raises \<^verbatim>\<open>IndexError\<close>
  and returns nothing. The three other methods allocate \<^verbatim>\<open>np.zeros_like(grid.x)\<close>; what
  they return is in the subsection before.
\<close>

theorem energies_array_not_sized_to_grid:
  "calculate_energies_on_grid
     (\<lambda>gx v. case gx of Arr1 xs \<Rightarrow> Inr (nearest_gridpoint xs v) | Arr0 y \<Rightarrow> Inl TypeError)
     (\<lambda>es gx v. case es of [] \<Rightarrow> Inl IndexError | e # _ \<Rightarrow> Inr e)
     \<lparr>sites = 0\<rparr> \<lparr>grid_x = 1, grid_volumes = 2\<rparr> 3
     [SiteList [], NdArray (Arr1 [0, 1, 2]), NdArray (Arr1 [1, 1, 1]), NdArray (Arr1 [0, 0, 0])]
   = (Inr 4,
      [SiteList [], NdArray (Arr1 [0, 1, 2]), NdArray (Arr1 [1, 1, 1]), NdArray (Arr1 [0, 0, 0]),
       NdArray (Arr0 0)]) \<and>
   calculate_energies_on_grid
     (\<lambda>gx v. case gx of Arr1 xs \<Rightarrow> Inr (nearest_gridpoint xs v) | Arr0 y \<Rightarrow> Inl TypeError)
     (\<lambda>es gx v. case es of [] \<Rightarrow> Inl IndexError | e # _ \<Rightarrow> Inr e)
     \<lparr>sites = 0\<rparr> \<lparr>grid_x = 1, grid_volumes = 2\<rparr> 3
     [SiteList [\<lparr>site_label = ''A'', site_x = 1.05, site_defect_energies = [0.3]\<rparr>],
      NdArray (Arr1 [0, 1, 2]), NdArray (Arr1 [1, 1, 1]), NdArray (Arr1 [0, 0, 0])]
   = (Inl IndexError,
      [SiteList [\<lparr>site_label = ''A'', site_x = 1.05, site_defect_energies = [0.3]\<rparr>],
       NdArray (Arr1 [0, 1, 2]), NdArray (Arr1 [1, 1, 1]), NdArray (Arr1 [0, 0, 0]),
       NdArray (Arr0 0)])"
  by (simp add: calculate_energies_on_grid_def read_array_def read_sites_def alloc_def
      update_array_def assign_energy_def setitem_def unary_plus_def
      nearest_gridpoint_def axis_index_def)

subsection \<open>The arguments after a call\<close>

lemma energies_repeat:
  assumes "grid_x grid < length h" and "sites self < length h"
  shows "\<exists>r new. calculate_energies_on_grid idx eax self grid phi h = (r, h @ new) \<and>
           calculate_energies_on_grid idx eax self grid phi (h @ new) =
             (map_sum id (\<lambda>a. a + length new) r, (h @ new) @ new)"
proof -
  have again: "\<And>new. calculate_energies_on_grid idx eax self grid phi (h @ new) =
    (case read_sites h (sites self) of
       Inl e \<Rightarrow> (Inl e, (h @ new) @ [NdArray (Arr0 0)])
     | Inr ss \<Rightarrow>
        (case for_each (\<lambda>site arr. and_then (read_array h (grid_x grid)) (\<lambda>gx.
                  assign_energy idx eax gx site arr)) ss (Arr0 0) of
           (Inl e, arr) \<Rightarrow> (Inl e, (h @ new) @ [NdArray arr])
         | (Inr u, arr) \<Rightarrow> (Inr (length (h @ new)), (h @ new) @ [NdArray arr])))"
    using assms
    by (subst calculate_energies_on_grid_arrays)
       (simp_all add: read_array_append read_sites_append cong: sum.case_cong)
  show ?thesis
    by (simp add: calculate_energies_on_grid_arrays [OF assms] again
        split: sum.split prod.split)
qed


lemma probabilities_repeat:
  assumes "grid_x grid < length h" and "phi < length h" and "sites self < length h"
  shows "\<exists>r new. calculate_probabilities idx phx prob self grid phi temp h = (r, h @ new) \<and>
           calculate_probabilities idx phx prob self grid phi temp (h @ new) =
             (map_sum id (\<lambda>a. a + length new) r, (h @ new) @ new)"
proof -
  have again: "\<And>new. calculate_probabilities idx phx prob self grid phi temp (h @ new) =
    (case read_array h (grid_x grid) of
       Inl e \<Rightarrow> (Inl e, h @ new)
     | Inr gx \<Rightarrow>
        (case read_sites h (sites self) of
           Inl e \<Rightarrow> (Inl e, (h @ new) @ [NdArray (np_zeros_like gx)])
         | Inr ss \<Rightarrow>
            (case for_each (\<lambda>site arr. and_then (read_array h phi) (\<lambda>pa.
                      assign_probability idx phx prob pa gx temp site arr)) ss (np_zeros_like gx) of
               (Inl e, arr) \<Rightarrow> (Inl e, (h @ new) @ [NdArray arr])
             | (Inr u, arr) \<Rightarrow> (Inr (length (h @ new)), (h @ new) @ [NdArray arr]))))"
    using assms
    by (subst calculate_probabilities_arrays)
       (simp_all add: read_array_append read_sites_append cong: sum.case_cong)
  show ?thesis
    by (simp add: calculate_probabilities_arrays [OF assms] again
        split: sum.split prod.split)
qed

lemma subgrid_density_repeat:
  assumes "grid_x sub_grid < length h" and "grid_volumes sub_grid < length h"
    and "grid_x full_grid < length h" and "phi < length h" and "sites self < length h"
  shows "\<exists>r new.
           subgrid_calculate_defect_density idx phx prob self sub_grid full_grid phi temp h =
             (r, h @ new) \<and>
           subgrid_calculate_defect_density idx phx prob self sub_grid full_grid phi temp
               (h @ new) =
             (map_sum id (\<lambda>a. a + length new) r, (h @ new) @ new)"
proof -
  have again: "\<And>new.
    subgrid_calculate_defect_density idx phx prob self sub_grid full_grid phi temp (h @ new) =
    (case read_array h (grid_x sub_grid) of
       Inl e \<Rightarrow> (Inl e, h @ new)
     | Inr gx \<Rightarrow>
        (case read_sites h (sites self) of
           Inl e \<Rightarrow> (Inl e, (h @ new) @ [NdArray (np_zeros_like gx)])
         | Inr ss \<Rightarrow>
            (case for_each (\<lambda>site arr.
                      and_then (read_array h phi) (\<lambda>pa.
                      and_then (read_array h (grid_x full_grid)) (\<lambda>fx.
                      and_then (read_array h (grid_volumes sub_grid)) (\<lambda>volumes.
                        add_density idx phx prob pa gx fx volumes temp site arr))))
                    ss (np_zeros_like gx) of
               (Inl e, arr) \<Rightarrow> (Inl e, (h @ new) @ [NdArray arr])
             | (Inr u, arr) \<Rightarrow> (Inr (length (h @ new)), (h @ new) @ [NdArray arr]))))"
    using assms
    by (subst subgrid_calculate_defect_density_arrays)
       (simp_all add: read_array_append read_sites_append cong: sum.case_cong)
  show ?thesis
    by (simp add: subgrid_calculate_defect_density_arrays [OF assms] again
        split: sum.split prod.split)
qed

text \<open>
  Claim C9. The arguments of a call are references into the store \<open>h\<close>: the list of
  sites, the two arrays of each grid and the potential. After a call of any of the four
  methods, returned or raised, the store is \<open>h @ new\<close>: every object of \<open>h\<close>, the
  arguments among them, is as before, and \<open>new\<close> holds the array the call allocated. A
  second call with the same arguments on the store the first one left ends as the first
  did, with the same exception or with a reference to a second array equal to the first,
  and appends that array and nothing else.
\<close>

theorem aggregation_leaves_inputs_unchanged:
  assumes "grid_x grid < length h" and "grid_volumes grid < length h"
    and "grid_x full_grid < length h" and "phi < length h" and "sites self < length h"
  shows "(\<exists>r new.
            calculate_energies_on_grid index_of_grid_at_x energy_at_x self grid phi h =
              (r, h @ new) \<and>
            calculate_energies_on_grid index_of_grid_at_x energy_at_x self grid phi (h @ new) =
              (map_sum id (\<lambda>a. a + length new) r, (h @ new) @ new)) \<and>
         (\<exists>r new.
            calculate_probabilities index_of_grid_at_x phi_at_x probabilities self grid phi temp h =
              (r, h @ new) \<and>
            calculate_probabilities index_of_grid_at_x phi_at_x probabilities self grid phi temp
                (h @ new) =
              (map_sum id (\<lambda>a. a + length new) r, (h @ new) @ new)) \<and>
         (\<exists>r new.
            calculate_defect_density index_of_grid_at_x phi_at_x probabilities self grid phi temp h =
              (r, h @ new) \<and>
            calculate_defect_density index_of_grid_at_x phi_at_x probabilities self grid phi temp
                (h @ new) =
              (map_sum id (\<lambda>a. a + length new) r, (h @ new) @ new)) \<and>
         (\<exists>r new.
            subgrid_calculate_defect_density index_of_grid_at_x phi_at_x probabilities self
                grid full_grid phi temp h =
              (r, h @ new) \<and>
            subgrid_calculate_defect_density index_of_grid_at_x phi_at_x probabilities self
                grid full_grid phi temp (h @ new) =
              (map_sum id (\<lambda>a. a + length new) r, (h @ new) @ new))"
proof (intro conjI)
  show "\<exists>r new.
            calculate_energies_on_grid index_of_grid_at_x energy_at_x self grid phi h =
              (r, h @ new) \<and>
            calculate_energies_on_grid index_of_grid_at_x energy_at_x self grid phi (h @ new) =
              (map_sum id (\<lambda>a. a + length new) r, (h @ new) @ new)"
    using assms(1,5) by (rule energies_repeat)
  show "\<exists>r new.
            calculate_probabilities index_of_grid_at_x phi_at_x probabilities self grid phi temp h =
              (r, h @ new) \<and>
            calculate_probabilities index_of_grid_at_x phi_at_x probabilities self grid phi temp
                (h @ new) =
              (map_sum id (\<lambda>a. a + length new) r, (h @ new) @ new)"
    using assms(1,4,5) by (rule probabilities_repeat)
  show "\<exists>r new.
            calculate_defect_density index_of_grid_at_x phi_at_x probabilities self grid phi temp h =
              (r, h @ new) \<and>
            calculate_defect_density index_of_grid_at_x phi_at_x probabilities self grid phi temp
                (h @ new) =
              (map_sum id (\<lambda>a. a + length new) r, (h @ new) @ new)"
    using subgrid_density_repeat [OF assms(1,2,1,4,5), of index_of_grid_at_x phi_at_x probabilities temp]
    by (simp only: subgrid_same_grid)
  show "\<exists>r new.
            subgrid_calculate_defect_density index_of_grid_at_x phi_at_x probabilities self
                grid full_grid phi temp h =
              (r, h @ new) \<and>
            subgrid_calculate_defect_density index_of_grid_at_x phi_at_x probabilities self
                grid full_grid phi temp (h @ new) =
              (map_sum id (\<lambda>a. a + length new) r, (h @ new) @ new)"
    using assms by (rule subgrid_density_repeat)
qed

text \<open>
  A store of four objects, one site: \<^verbatim>\<open>calculate_defect_density\<close> called twice returns
  the references 4 and 5 to two equal arrays, and the four objects stay as they were.
\<close>

theorem aggregation_leaves_inputs_unchanged_witness:
  "(\<exists>r new.
      calculate_energies_on_grid
        (\<lambda>gx v. case gx of Arr1 xs \<Rightarrow> Inr (nearest_gridpoint xs v) | Arr0 y \<Rightarrow> Inl TypeError)
        (\<lambda>es gx v. case es of [] \<Rightarrow> Inl IndexError | e # _ \<Rightarrow> Inr e)
        \<lparr>sites = 0\<rparr> \<lparr>grid_x = 1, grid_volumes = 2\<rparr> 3
        [SiteList [\<lparr>site_label = ''A'', site_x = 1.05, site_defect_energies = [0.3]\<rparr>],
         NdArray (Arr1 [0, 1, 2]), NdArray (Arr1 [1, 1, 1]), NdArray (Arr1 [0, 0, 0])] =
        (r, [SiteList [\<lparr>site_label = ''A'', site_x = 1.05, site_defect_energies = [0.3]\<rparr>],
             NdArray (Arr1 [0, 1, 2]), NdArray (Arr1 [1, 1, 1]), NdArray (Arr1 [0, 0, 0])] @ new) \<and>
      calculate_energies_on_grid
        (\<lambda>gx v. case gx of Arr1 xs \<Rightarrow> Inr (nearest_gridpoint xs v) | Arr0 y \<Rightarrow> Inl TypeError)
        (\<lambda>es gx v. case es of [] \<Rightarrow> Inl IndexError | e # _ \<Rightarrow> Inr e)
        \<lparr>sites = 0\<rparr> \<lparr>grid_x = 1, grid_volumes = 2\<rparr> 3
        ([SiteList [\<lparr>site_label = ''A'', site_x = 1.05, site_defect_energies = [0.3]\<rparr>],
         NdArray (Arr1 [0, 1, 2]), NdArray (Arr1 [1, 1, 1]), NdArray (Arr1 [0, 0, 0])] @ new) =
        (map_sum id (\<lambda>a. a + length new) r,
         ([SiteList [\<lparr>site_label = ''A'', site_x = 1.05, site_defect_energies = [0.3]\<rparr>],
           NdArray (Arr1 [0, 1, 2]), NdArray (Arr1 [1, 1, 1]), NdArray (Arr1 [0, 0, 0])] @ new) @ new)) \<and>
   calculate_defect_density
        (\<lambda>gx v. case gx of Arr1 xs \<Rightarrow> Inr (nearest_gridpoint xs v) | Arr0 y \<Rightarrow> Inl TypeError)
        (\<lambda>phi gx v. Inr 0) (\<lambda>s v t. Inr [1 / 2])
        \<lparr>sites = 0\<rparr> \<lparr>grid_x = 1, grid_volumes = 2\<rparr> 3 300
        [SiteList [\<lparr>site_label = ''A'', site_x = 1.05, site_defect_energies = [0.3]\<rparr>],
         NdArray (Arr1 [0, 1, 2]), NdArray (Arr1 [1, 1, 1]), NdArray (Arr1 [0, 0, 0])] =
     (Inr 4,
        [SiteList [\<lparr>site_label = ''A'', site_x = 1.05, site_defect_energies = [0.3]\<rparr>],
         NdArray (Arr1 [0, 1, 2]), NdArray (Arr1 [1, 1, 1]), NdArray (Arr1 [0, 0, 0]),
         NdArray (Arr1 [0, 1 / 2, 0])]) \<and>
   calculate_defect_density
        (\<lambda>gx v. case gx of Arr1 xs \<Rightarrow> Inr (nearest_gridpoint xs v) | Arr0 y \<Rightarrow> Inl TypeError)
        (\<lambda>phi gx v. Inr 0) (\<lambda>s v t. Inr [1 / 2])
        \<lparr>sites = 0\<rparr> \<lparr>grid_x = 1, grid_volumes = 2\<rparr> 3 300
        [SiteList [\<lparr>site_label = ''A'', site_x = 1.05, site_defect_energies = [0.3]\<rparr>],
         NdArray (Arr1 [0, 1, 2]), NdArray (Arr1 [1, 1, 1]), NdArray (Arr1 [0, 0, 0]),
         NdArray (Arr1 [0, 1 / 2, 0])] =
     (Inr 5,
        [SiteList [\<lparr>site_label = ''A'', site_x = 1.05, site_defect_energies = [0.3]\<rparr>],
         NdArray (Arr1 [0, 1, 2]), NdArray (Arr1 [1, 1, 1]), NdArray (Arr1 [0, 0, 0]),
         NdArray (Arr1 [0, 1 / 2, 0]), NdArray (Arr1 [0, 1 / 2, 0])])"
proof -
  let ?h = "[SiteList [\<lparr>site_label = ''A'', site_x = 1.05, site_defect_energies = [0.3]\<rparr>],
         NdArray (Arr1 [0, 1, 2]), NdArray (Arr1 [1, 1, 1]), NdArray (Arr1 [0, 0, 0])]"
  let ?idx = "\<lambda>gx v. case gx of Arr1 xs \<Rightarrow> Inr (nearest_gridpoint xs v) | Arr0 y \<Rightarrow> Inl TypeError"
  let ?phx = "\<lambda>(phi::ndarray) (gx::ndarray) (v::real). Inr 0 :: error + real"
  let ?prob = "\<lambda>(s::Site) (v::real) (t::real). Inr [1 / 2] :: error + real list"
  have valid: "grid_x \<lparr>grid_x = 1, grid_volumes = 2\<rparr> < length ?h"
      "grid_volumes \<lparr>grid_x = 1, grid_volumes = 2\<rparr> < length ?h"
      "3 < length ?h" "sites \<lparr>sites = 0\<rparr> < length ?h"
    by simp_all
  note all = aggregation_leaves_inputs_unchanged [OF valid(1,2,1,3,4),
      of ?idx "\<lambda>es gx v. case es of [] \<Rightarrow> Inl IndexError | e # _ \<Rightarrow> Inr e" ?phx ?prob 300]
  from all obtain r new where
    first: "calculate_defect_density ?idx ?phx ?prob \<lparr>sites = 0\<rparr> \<lparr>grid_x = 1, grid_volumes = 2\<rparr>
              3 300 ?h = (r, ?h @ new)"
    and second: "calculate_defect_density ?idx ?phx ?prob \<lparr>sites = 0\<rparr>
              \<lparr>grid_x = 1, grid_volumes = 2\<rparr> 3 300 (?h @ new) =
              (map_sum id (\<lambda>a. a + length new) r, (?h @ new) @ new)"
    by blast
  have once: "calculate_defect_density ?idx ?phx ?prob \<lparr>sites = 0\<rparr>
              \<lparr>grid_x = 1, grid_volumes = 2\<rparr> 3 300 ?h =
            (Inr 4, ?h @ [NdArray (Arr1 [0, 1 / 2, 0])])"
    by (simp add: calculate_defect_density_def read_array_def read_sites_def alloc_def
        np_zeros_like_def update_array_def add_density_def getitem_def setitem_array_def
        nearest_gridpoint_def axis_index_def)
  from first once have "r = Inr 4" and "new = [NdArray (Arr1 [0, 1 / 2, 0])]"
    by simp_all
  with second once all show ?thesis by simp
qed

end
